theory Spec2Isabelle
  imports Complex_Main "HOL-Library.Sublist"
begin

section \<open>JavaScript numbers\<close>

text \<open>
  A JavaScript number is modelled as an exact rational extended by the three special
  values of IEEE arithmetic. Rounding to the nearest double, overflow of finite
  arithmetic and the sign of zero are not modelled; the special values follow IEEE 754
  with every zero read as positive.
\<close>

datatype jsnum = Fin rat | PosInf | NegInf | NaN

fun jneg :: "jsnum \<Rightarrow> jsnum" where
  "jneg (Fin a) = Fin (- a)"
| "jneg PosInf = NegInf"
| "jneg NegInf = PosInf"
| "jneg NaN = NaN"

fun jadd :: "jsnum \<Rightarrow> jsnum \<Rightarrow> jsnum" where
  "jadd (Fin a) (Fin b) = Fin (a + b)"
| "jadd NaN _ = NaN"
| "jadd _ NaN = NaN"
| "jadd PosInf NegInf = NaN"
| "jadd NegInf PosInf = NaN"
| "jadd PosInf _ = PosInf"
| "jadd _ PosInf = PosInf"
| "jadd NegInf _ = NegInf"
| "jadd _ NegInf = NegInf"

definition jsub :: "jsnum \<Rightarrow> jsnum \<Rightarrow> jsnum" where
  "jsub a b = jadd a (jneg b)"

text \<open>The sign of a number that is not NaN: -1, 0 or 1.\<close>

fun jsgn :: "jsnum \<Rightarrow> int" where
  "jsgn (Fin a) = (if a < 0 then - 1 else if a = 0 then 0 else 1)"
| "jsgn PosInf = 1"
| "jsgn NegInf = - 1"
| "jsgn NaN = 0"

fun jmul :: "jsnum \<Rightarrow> jsnum \<Rightarrow> jsnum" where
  "jmul (Fin a) (Fin b) = Fin (a * b)"
| "jmul NaN _ = NaN"
| "jmul _ NaN = NaN"
| "jmul a b =
     (if jsgn a * jsgn b = 0 then NaN else if jsgn a * jsgn b > 0 then PosInf else NegInf)"

fun jdiv :: "jsnum \<Rightarrow> jsnum \<Rightarrow> jsnum" where
  "jdiv NaN _ = NaN"
| "jdiv _ NaN = NaN"
| "jdiv (Fin a) (Fin b) =
     (if b = 0 then (if a = 0 then NaN else if a > 0 then PosInf else NegInf)
      else Fin (a / b))"
| "jdiv (Fin a) _ = Fin 0"
| "jdiv a (Fin b) =
     (if jsgn a * (if b < 0 then - 1 else 1) > 0 then PosInf else NegInf)"
| "jdiv _ _ = NaN"

fun jabs :: "jsnum \<Rightarrow> jsnum" where
  "jabs (Fin a) = Fin \<bar>a\<bar>"
| "jabs PosInf = PosInf"
| "jabs NegInf = PosInf"
| "jabs NaN = NaN"

text \<open>Comparison \<open>a <= b\<close>; every comparison with NaN is false.\<close>

fun jle :: "jsnum \<Rightarrow> jsnum \<Rightarrow> bool" where
  "jle NaN _ = False"
| "jle _ NaN = False"
| "jle (Fin a) (Fin b) = (a \<le> b)"
| "jle NegInf _ = True"
| "jle _ PosInf = True"
| "jle _ _ = False"

text \<open>Comparison \<open>a < b\<close>; \<open>a > b\<close> is \<open>jlt b a\<close>.\<close>

fun jlt :: "jsnum \<Rightarrow> jsnum \<Rightarrow> bool" where
  "jlt NaN _ = False"
| "jlt _ NaN = False"
| "jlt (Fin a) (Fin b) = (a < b)"
| "jlt PosInf _ = False"
| "jlt _ NegInf = False"
| "jlt _ _ = True"

definition jgt :: "jsnum \<Rightarrow> jsnum \<Rightarrow> bool" where
  "jgt a b = jlt b a"

definition isNaN :: "jsnum \<Rightarrow> bool" where
  "isNaN a = (a = NaN)"

text \<open>Truthiness of a number: everything but zero and NaN.\<close>

definition num_truthy :: "jsnum \<Rightarrow> bool" where
  "num_truthy a = (a \<noteq> NaN \<and> a \<noteq> Fin 0)"

text \<open>\<open>a || d\<close> on numbers.\<close>

definition num_or :: "jsnum \<Rightarrow> jsnum \<Rightarrow> jsnum" where
  "num_or a d = (if num_truthy a then a else d)"

section \<open>JavaScript strings\<close>

text \<open>
  A string is the list of its code units; the model covers code units below 256.
  White space (the class \<open>\s\<close>, also what \<open>trim\<close> and the number parsers strip) is
  TAB, LF, VT, FF, CR, SPACE and NBSP in that range.
\<close>

definition is_space :: "char \<Rightarrow> bool" where
  "is_space c = (c = CHR 0x09 \<or> c = CHR 0x0A \<or> c = CHR 0x0B \<or> c = CHR 0x0C
      \<or> c = CHR 0x0D \<or> c = CHR 0x20 \<or> c = CHR 0xA0)"

definition is_digit :: "char \<Rightarrow> bool" where
  "is_digit c = (48 \<le> (of_char c :: nat) \<and> (of_char c :: nat) \<le> 57)"

definition digit_val :: "char \<Rightarrow> int" where
  "digit_val c = of_char c - 48"

definition digits_val :: "string \<Rightarrow> int" where
  "digits_val ds = foldl (\<lambda>a c. 10 * a + digit_val c) 0 ds"

definition trim :: "string \<Rightarrow> string" where
  "trim s = rev (dropWhile is_space (rev (dropWhile is_space s)))"

text \<open>\<open>s.split(c)\<close> for a one-character separator.\<close>

fun splitOn :: "char \<Rightarrow> string \<Rightarrow> string list" where
  "splitOn c [] = [[]]"
| "splitOn c (x # xs) =
     (if x = c then [] # splitOn c xs
      else (case splitOn c xs of p # ps \<Rightarrow> (x # p) # ps | [] \<Rightarrow> [[x]]))"

text \<open>An optional sign: whether it is a minus, and the rest.\<close>

definition scanSign :: "string \<Rightarrow> bool \<times> string" where
  "scanSign s =
     (case s of
        [] \<Rightarrow> (False, [])
      | c # r \<Rightarrow> if c = CHR ''-'' then (True, r) else if c = CHR ''+'' then (False, r)
                 else (False, s))"

definition exp10 :: "int \<Rightarrow> rat" where
  "exp10 e = (if 0 \<le> e then 10 ^ nat e else 1 / 10 ^ nat (- e))"

text \<open>
  The exponent part at the head of a string, \<open>[eE][+-]?digits\<close>: its value and the rest;
  without digits there is no exponent part.
\<close>

definition scanExponent :: "string \<Rightarrow> int \<times> string" where
  "scanExponent s =
     (case s of
        [] \<Rightarrow> (0, s)
      | c # r \<Rightarrow>
          if c = CHR ''e'' \<or> c = CHR ''E'' then
            (let (neg, d) = scanSign r; ds = takeWhile is_digit d
             in if ds = [] then (0, s)
                else ((if neg then - digits_val ds else digits_val ds),
                      dropWhile is_digit d))
          else (0, s))"

text \<open>
  The longest prefix that is an unsigned decimal literal
  (\<open>digits [. [digits]] [exponent]\<close> or \<open>. digits [exponent]\<close>): its value and the rest.
\<close>

definition scanDecimal :: "string \<Rightarrow> (rat \<times> string) option" where
  "scanDecimal s =
     (let ip = takeWhile is_digit s;
          r1 = dropWhile is_digit s;
          (fp, r2) = (case r1 of
                        [] \<Rightarrow> ([], r1)
                      | c # r \<Rightarrow> if c = CHR ''.'' \<and> (ip \<noteq> [] \<or> takeWhile is_digit r \<noteq> [])
                                 then (takeWhile is_digit r, dropWhile is_digit r)
                                 else ([], r1))
      in if ip = [] \<and> fp = [] then None
         else (let (e, r3) = scanExponent r2
               in Some ((of_int (digits_val ip) + of_int (digits_val fp) / 10 ^ length fp)
                          * exp10 e, r3)))"

text \<open>\<open>parseFloat(s)\<close> for a string.\<close>

definition parseFloat :: "string \<Rightarrow> jsnum" where
  "parseFloat s =
     (let (neg, u) = scanSign (dropWhile is_space s)
      in if take 8 u = ''Infinity'' then (if neg then NegInf else PosInf)
         else (case scanDecimal u of
                 None \<Rightarrow> NaN
               | Some (m, r) \<Rightarrow> Fin (if neg then - m else m)))"

section \<open>Values and objects\<close>

text \<open>
  An itinerary stop as the extractors build it: each property is a string or absent.
\<close>

record stop =
  stop_date :: "string option"
  stop_city :: "string option"
  stop_state :: "string option"

text \<open>
  The values a field of a request can hold: absent, null, a string, a number, or an
  array of itinerary stops.
\<close>

datatype jsval = Undefined | Null | Str string | Number jsnum | Stops "stop list"

text \<open>An object is a finite map from property names; a missing property reads undefined.\<close>

type_synonym obj = "string \<rightharpoonup> jsval"

definition get :: "obj \<Rightarrow> string \<Rightarrow> jsval" where
  "get m k = (case m k of None \<Rightarrow> Undefined | Some v \<Rightarrow> v)"

fun truthy :: "jsval \<Rightarrow> bool" where
  "truthy Undefined = False"
| "truthy Null = False"
| "truthy (Str s) = (s \<noteq> [])"
| "truthy (Number n) = num_truthy n"
| "truthy (Stops l) = True"

text \<open>
  \<open>parseFloat(v)\<close>: the argument is converted to a string first. A number survives the
  round trip through its string; the strings of undefined, null and an array of objects
  hold no number.
\<close>

fun parseFloatVal :: "jsval \<Rightarrow> jsnum" where
  "parseFloatVal (Str s) = parseFloat s"
| "parseFloatVal (Number n) = n"
| "parseFloatVal _ = NaN"

section \<open>Averaging the monthly rates (utils.js, utils.gs)\<close>

text \<open>The inner \<open>parseRate\<close> of \<open>average\<close>.\<close>

definition parseRate :: "jsval \<Rightarrow> jsnum" where
  "parseRate v =
     (case v of
        Undefined \<Rightarrow> NaN
      | Null \<Rightarrow> NaN
      | Str s \<Rightarrow>
          (if CHR ''-'' \<in> set s then
             (case map (\<lambda>p. parseFloat (trim p)) (splitOn (CHR ''-'') s) of
                low # high # _ \<Rightarrow>
                  if \<not> isNaN low \<and> \<not> isNaN high then jdiv (jadd low high) (Fin 2)
                  else parseFloat s
              | _ \<Rightarrow> parseFloat s)
           else parseFloat s)
      | _ \<Rightarrow> parseFloatVal v)"

definition average :: "jsval list \<Rightarrow> jsnum" where
  "average vals =
     (let nums = filter (\<lambda>n. \<not> isNaN n) (map parseRate vals);
          total = foldl jadd (Fin 0) nums
      in if nums \<noteq> [] then jdiv total (Fin (of_nat (length nums))) else Fin 0)"

subsection \<open>The entries of a rate array as the specification describes them\<close>

text \<open>
  A numeric string in the sense of the specification: a plain decimal numeral, digits
  with an optional fraction.
\<close>

definition decimalValue :: "string \<Rightarrow> rat option" where
  "decimalValue s =
     (let ip = takeWhile is_digit s; r = dropWhile is_digit s
      in if ip = [] then None
         else (case r of
                 [] \<Rightarrow> Some (of_int (digits_val ip))
               | c # fp \<Rightarrow>
                   if c = CHR ''.'' \<and> fp \<noteq> [] \<and> list_all is_digit fp
                   then Some (of_int (digits_val ip) + of_int (digits_val fp) / 10 ^ length fp)
                   else None))"

text \<open>A range string \<open>low-high\<close> of two such numerals: its two bounds.\<close>

definition rangeBounds :: "string \<Rightarrow> (rat \<times> rat) option" where
  "rangeBounds s =
     (case dropWhile (\<lambda>c. c \<noteq> CHR ''-'') s of
        [] \<Rightarrow> None
      | _ # hi \<Rightarrow>
          (case (decimalValue (takeWhile (\<lambda>c. c \<noteq> CHR ''-'') s), decimalValue hi) of
             (Some a, Some b) \<Rightarrow> Some (a, b)
           | _ \<Rightarrow> None))"

text \<open>
  The number the specification assigns to an entry: a number as it is, a numeric string
  its value, a range its midpoint; nothing for any other entry.
\<close>

fun specRate :: "jsval \<Rightarrow> rat option" where
  "specRate (Number (Fin r)) = Some r"
| "specRate (Str s) =
     (case decimalValue s of
        Some r \<Rightarrow> Some r
      | None \<Rightarrow> (case rangeBounds s of Some (a, b) \<Rightarrow> Some ((a + b) / 2) | None \<Rightarrow> None))"
| "specRate _ = None"

text \<open>The mean of the entries that have a number, and 0 when none has.\<close>

definition specAverage :: "jsval list \<Rightarrow> jsnum" where
  "specAverage vals =
     (let xs = List.map_filter specRate vals
      in if xs = [] then Fin 0 else Fin (sum_list xs / of_nat (length xs)))"

text \<open>
  The entries the specification speaks of: a finite number, a numeric string, a range
  string, an absent entry, or an entry the code cannot parse.
\<close>

fun entry_ok :: "jsval \<Rightarrow> bool" where
  "entry_ok (Str s) = (specRate (Str s) \<noteq> None \<or> parseRate (Str s) = NaN)"
| "entry_ok (Number n) = (n \<noteq> PosInf \<and> n \<noteq> NegInf)"
| "entry_ok _ = True"

section \<open>Rendering and reading numbers\<close>

definition digit_char :: "int \<Rightarrow> char" where
  "digit_char d = char_of (48 + d)"

text \<open>The decimal digits of an integer that is not negative.\<close>

function showNat :: "int \<Rightarrow> string" where
  "showNat n = (if n < 10 then [digit_char n] else showNat (n div 10) @ [digit_char (n mod 10)])"
  by pat_completeness auto
termination
  by (relation "measure nat") auto

text \<open>
  \<open>x.toFixed(2)\<close>: the nearest multiple of 1/100, the larger one on a tie of the
  magnitude, written with two decimals, and a minus sign whenever \<open>x < 0\<close>. The source
  switches to exponent notation from a magnitude of \<open>10^21\<close>; the model does not.
\<close>

definition toFixed2 :: "jsnum \<Rightarrow> string" where
  "toFixed2 x =
     (case x of
        NaN \<Rightarrow> ''NaN''
      | PosInf \<Rightarrow> ''Infinity''
      | NegInf \<Rightarrow> ''-Infinity''
      | Fin r \<Rightarrow>
          (let n = \<lfloor>\<bar>r\<bar> * 100 + 1 / 2\<rfloor>
           in (if r < 0 then ''-'' else []) @ showNat (n div 100) @ ''.''
                @ [digit_char (n mod 100 div 10), digit_char (n mod 10)]))"

text \<open>The digits of a fraction below 1, at most \<open>k\<close> of them.\<close>

fun fracDigits :: "nat \<Rightarrow> rat \<Rightarrow> string" where
  "fracDigits 0 f = []"
| "fracDigits (Suc k) f =
     (if f = 0 then []
      else digit_char \<lfloor>10 * f\<rfloor> # fracDigits k (10 * f - of_int \<lfloor>10 * f\<rfloor>))"

text \<open>
  The decimal exponent of a positive number \<open>a\<close>: the \<open>e\<close> with \<open>10^e \<le> a < 10^(e+1)\<close>,
  read off the number of digits of the integer part of \<open>a\<close>, or of \<open>1 / a\<close> below 1.
\<close>

definition decExponent :: "rat \<Rightarrow> int" where
  "decExponent a =
     (if 1 \<le> a then int (length (showNat \<lfloor>a\<rfloor>)) - 1
      else - int (length (showNat (\<lceil>1 / a\<rceil> - 1))))"

text \<open>
  \<open>String(x)\<close> for a number. From \<open>10^-6\<close> up to \<open>10^21\<close>, and for 0, the number is written
  in decimal notation; below and above the source uses exponent notation: the first
  digit, the further digits after a point, then \<open>e+n\<close> or \<open>e-n\<close>. The digits of a
  fraction are those of the decimal expansion, cut after 20 places, where the source
  writes the shortest digits that read back as the same double.
\<close>

definition numToString :: "jsnum \<Rightarrow> string" where
  "numToString x =
     (case x of
        NaN \<Rightarrow> ''NaN''
      | PosInf \<Rightarrow> ''Infinity''
      | NegInf \<Rightarrow> ''-Infinity''
      | Fin r \<Rightarrow>
          (let a = \<bar>r\<bar>;
               e = decExponent a;
               exponential = (a \<noteq> 0 \<and> (a < 1 / 10 ^ 6 \<or> 10 ^ 21 \<le> a));
               m = (if \<not> exponential then a
                    else if 0 \<le> e then a / 10 ^ nat e else a * 10 ^ nat (- e));
               i = \<lfloor>m\<rfloor>; f = m - of_int i
           in (if r < 0 then ''-'' else []) @ showNat i
                @ (if f = 0 then [] else ''.'' @ fracDigits 20 f)
                @ (if \<not> exponential then []
                   else (if 0 \<le> e then ''e+'' else ''e-'') @ showNat \<bar>e\<bar>)))"

text \<open>The value of a digit in a radix up to 16, if it is one.\<close>

definition radix_digit :: "nat \<Rightarrow> char \<Rightarrow> nat option" where
  "radix_digit b c =
     (let n = (of_char c :: nat);
          v = (if 48 \<le> n \<and> n \<le> 57 then n - 48
               else if 97 \<le> n \<and> n \<le> 102 then n - 87
               else if 65 \<le> n \<and> n \<le> 70 then n - 55
               else 16)
      in if v < b then Some v else None)"

definition radixValue :: "nat \<Rightarrow> string \<Rightarrow> jsnum" where
  "radixValue b ds =
     (if ds \<noteq> [] \<and> list_all (\<lambda>c. radix_digit b c \<noteq> None) ds
      then Fin (of_int (foldl (\<lambda>a c. int b * a + int (the (radix_digit b c))) 0 ds))
      else NaN)"

text \<open>
  The conversion of a string to a number (as \<open>Number(s)\<close>, \<open>isNaN(s)\<close>, \<open>Math.abs(s)\<close> and
  a comparison with a number do): the whole trimmed string must be a numeric literal,
  and the empty string is 0.
\<close>

definition toNumber :: "string \<Rightarrow> jsnum" where
  "toNumber s =
     (let t = trim s
      in if t = [] then Fin 0
         else if take 2 t = ''0x'' \<or> take 2 t = ''0X'' then radixValue 16 (drop 2 t)
         else if take 2 t = ''0o'' \<or> take 2 t = ''0O'' then radixValue 8 (drop 2 t)
         else if take 2 t = ''0b'' \<or> take 2 t = ''0B'' then radixValue 2 (drop 2 t)
         else (let (neg, u) = scanSign t
               in if u = ''Infinity'' then (if neg then NegInf else PosInf)
                  else (case scanDecimal u of
                          Some (m, []) \<Rightarrow> Fin (if neg then - m else m)
                        | _ \<Rightarrow> NaN)))"

text \<open>\<open>String(v)\<close>; an array of objects is the list of \<open>[object Object]\<close>.\<close>

fun joinWith :: "string \<Rightarrow> string list \<Rightarrow> string" where
  "joinWith sep [] = []"
| "joinWith sep [x] = x"
| "joinWith sep (x # y # ys) = x @ sep @ joinWith sep (y # ys)"

fun toStr :: "jsval \<Rightarrow> string" where
  "toStr Undefined = ''undefined''"
| "toStr Null = ''null''"
| "toStr (Str s) = s"
| "toStr (Number n) = numToString n"
| "toStr (Stops l) = joinWith '','' (map (\<lambda>_. ''[object Object]'') l)"

text \<open>The conversion of a value to a number.\<close>

fun toNumberVal :: "jsval \<Rightarrow> jsnum" where
  "toNumberVal Undefined = NaN"
| "toNumberVal Null = Fin 0"
| "toNumberVal (Str s) = toNumber s"
| "toNumberVal (Number n) = n"
| "toNumberVal (Stops l) = toNumber (toStr (Stops l))"

section \<open>Regular expressions\<close>

text \<open>
  The patterns the modelled code uses, built from character classes, sequence and
  choice, and matched against a whole string by taking derivatives.
\<close>

datatype rx = Rnone | Reps | Rcls "char \<Rightarrow> bool" | Rseq rx rx | Ralt rx rx

fun nullable :: "rx \<Rightarrow> bool" where
  "nullable Rnone = False"
| "nullable Reps = True"
| "nullable (Rcls p) = False"
| "nullable (Rseq r s) = (nullable r \<and> nullable s)"
| "nullable (Ralt r s) = (nullable r \<or> nullable s)"

fun deriv :: "char \<Rightarrow> rx \<Rightarrow> rx" where
  "deriv c Rnone = Rnone"
| "deriv c Reps = Rnone"
| "deriv c (Rcls p) = (if p c then Reps else Rnone)"
| "deriv c (Rseq r s) =
     (if nullable r then Ralt (Rseq (deriv c r) s) (deriv c s) else Rseq (deriv c r) s)"
| "deriv c (Ralt r s) = Ralt (deriv c r) (deriv c s)"

definition rx_match :: "rx \<Rightarrow> string \<Rightarrow> bool" where
  "rx_match r s = nullable (foldl (\<lambda>r c. deriv c r) r s)"


text \<open>\<open>r{n}\<close>, \<open>r{0,n}\<close> and \<open>r{lo,hi}\<close>.\<close>

fun rx_times :: "nat \<Rightarrow> rx \<Rightarrow> rx" where
  "rx_times 0 r = Reps"
| "rx_times (Suc n) r = Rseq r (rx_times n r)"

fun rx_upto :: "nat \<Rightarrow> rx \<Rightarrow> rx" where
  "rx_upto 0 r = Reps"
| "rx_upto (Suc n) r = Ralt Reps (Rseq r (rx_upto n r))"

definition rx_rep :: "nat \<Rightarrow> nat \<Rightarrow> rx \<Rightarrow> rx" where
  "rx_rep lo hi r = Rseq (rx_times lo r) (rx_upto (hi - lo) r)"

definition rx_chr :: "char \<Rightarrow> rx" where
  "rx_chr c = Rcls (\<lambda>x. x = c)"

section \<open>Configuration (config.gs)\<close>

record config =
  DEFAULT_MIE :: jsnum
  DEFAULT_LODGING :: jsnum
  COST_BUFFER :: jsnum
  MAX_DEVIATION_PERCENT :: jsnum
  requiredFields :: "string list"
  phoneFormat :: rx
  vendorCodeFormat :: rx

definition CONFIG :: config where
  "CONFIG = \<lparr>
     DEFAULT_MIE = Fin 79,
     DEFAULT_LODGING = Fin 150,
     COST_BUFFER = Fin 10,
     MAX_DEVIATION_PERCENT = Fin 15,
     requiredFields =
       [''travelerName'', ''travelPurpose'', ''estimatedCost'', ''dutyStation'', ''contactNumber''],
     phoneFormat = Rseq (rx_upto 1 (rx_chr (CHR ''+''))) (rx_rep 7 15 (Rcls is_digit)),
     vendorCodeFormat = Rseq (rx_chr (CHR ''E'')) (rx_rep 8 9 (Rcls is_digit))
   \<rparr>"

section \<open>Form validation (utils.js, utils.gs)\<close>

record form_validation =
  isValid :: bool
  errors :: "string list"

text \<open>The test of one required field: the error it contributes.\<close>

definition requiredError :: "obj \<Rightarrow> string \<Rightarrow> string list" where
  "requiredError data field =
     (let v = get data field;
          isEmptyString = (case v of Str s \<Rightarrow> trim s = [] | _ \<Rightarrow> False)
      in if v = Undefined \<or> v = Null \<or> isEmptyString
         then [''Missing required field: '' @ field] else [])"

text \<open>\<open>replace(/[\s\-\(\)]/g, '')\<close>\<close>

definition stripSeparators :: "string \<Rightarrow> string" where
  "stripSeparators s =
     filter (\<lambda>c. \<not> (is_space c \<or> c = CHR ''-'' \<or> c = CHR ''('' \<or> c = CHR '')'')) s"

definition validateFormData :: "config \<Rightarrow> obj \<Rightarrow> form_validation" where
  "validateFormData cfg data =
     (let errors1 = concat (map (requiredError data) (requiredFields cfg));
          vendorCode = get data ''vendorCode'';
          errors2 = (if truthy vendorCode
                        \<and> \<not> rx_match (vendorCodeFormat cfg) (trim (toStr vendorCode))
                     then [''Invalid vendor code format''] else []);
          contactNumber = get data ''contactNumber'';
          errors3 = (if truthy contactNumber
                        \<and> \<not> rx_match (phoneFormat cfg) (stripSeparators (toStr contactNumber))
                     then [''Invalid phone number format''] else []);
          estimatedCost = get data ''estimatedCost'';
          errors4 = (if truthy estimatedCost
                        \<and> (isNaN (toNumberVal estimatedCost)
                             \<or> jle (toNumberVal estimatedCost) (Fin 0))
                     then [''Invalid estimated cost''] else []);
          errs = errors1 @ errors2 @ errors3 @ errors4
      in \<lparr> isValid = (errs = []), errors = errs \<rparr>)"

section \<open>Expected costs (utils.js, utils.gs)\<close>

record costItem =
  item_location :: string
  item_date :: jsval
  item_mie :: jsnum
  item_lodging :: jsnum
  item_total :: jsnum

record expectedCosts =
  totalExpected :: jsnum
  breakdown :: "costItem list"

text \<open>
  \<open>fetchPerDiemByCityState\<close>: without a city or a state there is no lookup. The request
  itself (sanitising the city, building the URL, the HTTP call, decoding the answer and
  taking its first element, with every failure giving null) is the parameter \<open>api\<close>,
  asked with the strings of city and state.
\<close>

definition fetchPerDiemByCityState ::
    "(string \<Rightarrow> string \<Rightarrow> obj option) \<Rightarrow> jsval \<Rightarrow> jsval \<Rightarrow> obj option" where
  "fetchPerDiemByCityState api city state =
     (if \<not> truthy city \<or> \<not> truthy state then None else api (toStr city) (toStr state))"

definition monthNames :: "string list" where
  "monthNames = [''Jan'', ''Feb'', ''Mar'', ''Apr'', ''May'', ''Jun'',
                 ''Jul'', ''Aug'', ''Sep'', ''Oct'', ''Nov'', ''Dec'']"

text \<open>
  The M&IE and lodging rate of one day from the answer of the lookup, as both
  \<open>calculateExpectedCosts\<close> and the duration branch of \<open>validateTarWithPerDiem\<close> compute
  them.
\<close>

definition dailyRates :: "config \<Rightarrow> obj option \<Rightarrow> jsnum \<times> jsnum" where
  "dailyRates cfg rateData =
     (case rateData of
        None \<Rightarrow> (DEFAULT_MIE cfg, DEFAULT_LODGING cfg)
      | Some r \<Rightarrow> (num_or (parseFloatVal (get r ''Meals'')) (DEFAULT_MIE cfg),
                   average (map (get r) monthNames)))"

text \<open>A property of a stop inside a template literal: an absent one prints \<open>undefined\<close>.\<close>

definition optVal :: "string option \<Rightarrow> jsval" where
  "optVal x = (case x of None \<Rightarrow> Undefined | Some s \<Rightarrow> Str s)"

definition stopCost :: "config \<Rightarrow> (string \<Rightarrow> string \<Rightarrow> obj option) \<Rightarrow> stop \<Rightarrow> costItem" where
  "stopCost cfg api item =
     (let city = optVal (stop_city item); state = optVal (stop_state item);
          (mie, lodging) = dailyRates cfg (fetchPerDiemByCityState api city state);
          dailyTotal = jadd mie lodging
      in \<lparr> item_location = toStr city @ '', '' @ toStr state,
           item_date = optVal (stop_date item),
           item_mie = mie, item_lodging = lodging, item_total = dailyTotal \<rparr>)"

definition calculateExpectedCosts ::
    "config \<Rightarrow> (string \<Rightarrow> string \<Rightarrow> obj option) \<Rightarrow> stop list \<Rightarrow> expectedCosts" where
  "calculateExpectedCosts cfg api itinerary =
     (let items = map (stopCost cfg api) itinerary
      in \<lparr> totalExpected = foldl jadd (Fin 0) (map item_total items), breakdown = items \<rparr>)"

section \<open>The validation report\<close>

text \<open>
  The report without its time stamp. \<open>variancePercent\<close> is the string that \<open>toFixed(2)\<close>
  returns.
\<close>

record report =
  traveler :: jsval
  authorizationNumber :: jsval
  rep_extractedData :: obj
  rep_expectedCosts :: expectedCosts
  claimedCost :: jsnum
  variance :: jsnum
  variancePercent :: string
  isWithinBuffer :: bool
  isWithinDeviation :: bool
  recommendations :: "string list"

text \<open>\<open>a || b\<close> on values.\<close>

definition or_val :: "jsval \<Rightarrow> jsval \<Rightarrow> jsval" where
  "or_val a b = (if truthy a then a else b)"

definition bufferMessage :: string where
  "bufferMessage = ''Claimed cost exceeds expected amount by more than acceptable buffer''"

definition deviationMessage :: "string \<Rightarrow> string" where
  "deviationMessage p = ''Variance of '' @ p @ ''% exceeds maximum acceptable deviation''"

definition reviewMessage :: string where
  "reviewMessage = ''No itinerary data found - manual review required''"

subsection \<open>\<open>generateValidationReport\<close> of utils.js\<close>

definition generateValidationReport :: "config \<Rightarrow> obj \<Rightarrow> expectedCosts \<Rightarrow> jsnum \<Rightarrow> report" where
  "generateValidationReport cfg extractedData expected claimed =
     (let e = totalExpected expected;
          v = jsub claimed e;
          vp = toFixed2 (jmul (jdiv (jsub claimed e) e) (Fin 100));
          wb = jle (jabs (jsub claimed e)) (COST_BUFFER cfg);
          wd = jle (jmul (jdiv (jabs (jsub claimed e)) e) (Fin 100)) (MAX_DEVIATION_PERCENT cfg)
      in \<lparr> traveler = or_val (get extractedData ''travelerName'') (Str ''Unknown''),
           authorizationNumber = or_val (get extractedData ''authorizationNumber'') (Str ''N/A''),
           rep_extractedData = extractedData,
           rep_expectedCosts = expected,
           claimedCost = claimed,
           variance = v,
           variancePercent = vp,
           isWithinBuffer = wb,
           isWithinDeviation = wd,
           recommendations =
             (if jgt v (COST_BUFFER cfg) then [bufferMessage] else [])
             @ (if jgt (jabs (toNumber vp)) (MAX_DEVIATION_PERCENT cfg)
                then [deviationMessage vp] else [])
             @ (if breakdown expected = [] then [reviewMessage] else []) \<rparr>)"

subsection \<open>\<open>generateValidationReport\<close> of utils.gs\<close>

definition generateValidationReport_gs ::
    "config \<Rightarrow> obj \<Rightarrow> expectedCosts \<Rightarrow> jsnum \<Rightarrow> report" where
  "generateValidationReport_gs cfg extractedData expected claimed =
     (let e = totalExpected expected;
          v = jsub claimed e;
          vp = (if e = Fin 0 then Fin 0 else jmul (jdiv v e) (Fin 100));
          wb = jle (jabs v) (COST_BUFFER cfg);
          wd = jle (jabs vp) (MAX_DEVIATION_PERCENT cfg)
      in \<lparr> traveler = or_val (get extractedData ''travelerName'') (Str ''Unknown''),
           authorizationNumber = or_val (get extractedData ''authorizationNumber'') (Str ''N/A''),
           rep_extractedData = extractedData,
           rep_expectedCosts = expected,
           claimedCost = claimed,
           variance = v,
           variancePercent = toFixed2 vp,
           isWithinBuffer = wb,
           isWithinDeviation = wd,
           recommendations =
             (if wb = False then [bufferMessage] else [])
             @ (if wd = False then [deviationMessage (toFixed2 vp)] else [])
             @ (if breakdown expected = [] then [reviewMessage] else []) \<rparr>)"

section \<open>\<open>validateTarWithPerDiem\<close> (utils.js, the part after its first separator)\<close>

text \<open>
  \<open>parseInt(s)\<close> without a radix: leading white space, a sign, then hexadecimal digits
  after \<open>0x\<close> and decimal digits otherwise.
\<close>

definition parseInt :: "string \<Rightarrow> jsnum" where
  "parseInt s =
     (let (neg, u) = scanSign (dropWhile is_space s);
          hex = (take 2 u = ''0x'' \<or> take 2 u = ''0X'');
          b = (if hex then 16 else 10);
          ds = takeWhile (\<lambda>c. radix_digit b c \<noteq> None) (if hex then drop 2 u else u)
      in case radixValue b ds of
           Fin m \<Rightarrow> Fin (if neg then - m else m)
         | _ \<Rightarrow> NaN)"

text \<open>
  \<open>parseInt(v)\<close> for a value: the source converts the value to a string first, so a
  number in exponent notation gives its first digit (\<open>parseInt(5e-7)\<close> is 5).
\<close>

definition parseIntVal :: "jsval \<Rightarrow> jsnum" where
  "parseIntVal v = parseInt (toStr v)"

text \<open>
  \<open>toUpperCase\<close> on code units below 256: the letters a to z and the letters U+00E0 to
  U+00FE (U+00F7, the division sign, is none) move down by 32, and U+00DF, the sharp s,
  becomes \<open>SS\<close>. The upper cases of U+00B5 and U+00FF lie above 255, outside the strings
  of this model, which leaves these two code units as they are.
\<close>

definition upperUnit :: "char \<Rightarrow> string" where
  "upperUnit c =
     (let n = (of_char c :: nat)
      in if 97 \<le> n \<and> n \<le> 122 then [char_of (n - 32)]
         else if n = 223 then ''SS''
         else if 224 \<le> n \<and> n \<le> 254 \<and> n \<noteq> 247 then [char_of (n - 32)]
         else [c])"

definition toUpperCase :: "string \<Rightarrow> string" where
  "toUpperCase s = concat (map upperUnit s)"

text \<open>
  The steps between the merge and the form validation, each an \<open>if\<close> of the source that
  fills a field which is still missing. First the copy of an alternative name:
  \<open>if (!m[target] && m[source]) m[target] = m[source]\<close>.
\<close>

definition copyField :: "string \<Rightarrow> string \<Rightarrow> obj \<Rightarrow> obj" where
  "copyField target source m =
     (if \<not> truthy (get m target) \<and> truthy (get m source)
      then m(target \<mapsto> get m source) else m)"

text \<open>The duty station built from city and state.\<close>

definition dutyStationFromCity :: "obj \<Rightarrow> obj" where
  "dutyStationFromCity m =
     (if \<not> truthy (get m ''dutyStation'') \<and> truthy (get m ''city'') \<and> truthy (get m ''state'')
      then m(''dutyStation'' \<mapsto> Str (toStr (get m ''city'') @ '', '' @ toStr (get m ''state'')))
      else m)"

text \<open>The total cost as the estimated cost; \<open>totalCost\<close> is a number by then.\<close>

definition estimatedCostFromTotal :: "obj \<Rightarrow> obj" where
  "estimatedCostFromTotal m =
     (if \<not> truthy (get m ''estimatedCost'')
      then m(''estimatedCost'' \<mapsto> get m ''totalCost'') else m)"

text \<open>The duty station taken from the first stop of an itinerary.\<close>

definition dutyStationFromItinerary :: "obj \<Rightarrow> obj" where
  "dutyStationFromItinerary m =
     (if \<not> truthy (get m ''dutyStation'') then
        (case get m ''itinerary'' of
           Stops (firstStop # _) \<Rightarrow>
             (if truthy (optVal (stop_city firstStop)) \<and> truthy (optVal (stop_state firstStop))
              then m(''dutyStation'' \<mapsto>
                       Str (toStr (optVal (stop_city firstStop)) @ '', ''
                            @ toStr (optVal (stop_state firstStop))))
              else m)
         | _ \<Rightarrow> m)
      else m)"

text \<open>City and state parsed out of a duty station \<open>City, ST\<close>.\<close>

definition cityStateFromDutyStation :: "obj \<Rightarrow> obj" where
  "cityStateFromDutyStation m =
     (if \<not> truthy (get m ''city'') \<or> \<not> truthy (get m ''state'') then
        (case get m ''dutyStation'' of
           Str ds \<Rightarrow>
             (if CHR '','' \<in> set ds then
                (case splitOn (CHR '','') ds of
                   p0 # p1 # _ \<Rightarrow>
                     (let cityPart = trim p0;
                          statePart = toUpperCase (take 2 (trim p1));
                          m1 = (if \<not> truthy (get m ''city'')
                                then m(''city'' \<mapsto> Str cityPart) else m)
                      in if \<not> truthy (get m1 ''state'')
                         then m1(''state'' \<mapsto> Str statePart) else m1)
                 | _ \<Rightarrow> m)
              else m)
         | _ \<Rightarrow> m)
      else m)"

text \<open>
  The merge of extracted and manual data (manual input wins, duration and total cost
  become numbers) followed by these steps in the order of the source.
\<close>

definition mergeTarData :: "obj \<Rightarrow> obj \<Rightarrow> obj" where
  "mergeTarData extracted data =
     cityStateFromDutyStation
       (dutyStationFromItinerary
         (estimatedCostFromTotal
           (copyField ''contactNumber'' ''poc''
             (dutyStationFromCity
               (copyField ''travelPurpose'' ''purpose''
                 (copyField ''travelerName'' ''traveler''
                   ((extracted ++ data)
                      (''duration'' \<mapsto>
                         Number (num_or (parseIntVal (get data ''duration'')) (Fin 1)),
                       ''totalCost'' \<mapsto>
                         Number (num_or (parseFloatVal (get data ''totalCost'')) (Fin 0))))))))))"

text \<open>
  The duration branch (the \<open>else\<close> of the test for an itinerary): the expected costs and
  the warning it may add. \<open>today\<close> stands for the current date.
\<close>

definition durationCosts ::
    "config \<Rightarrow> (string \<Rightarrow> string \<Rightarrow> obj option) \<Rightarrow> string \<Rightarrow> obj \<Rightarrow> expectedCosts \<times> string list" where
  "durationCosts cfg api today mergedData =
     (let city = or_val (get mergedData ''city'') (Str ''Unknown'');
          state = or_val (get mergedData ''state'') (Str ''Unknown'');
          duration = toNumberVal (get mergedData ''duration'');
          rateData = fetchPerDiemByCityState api city state;
          (mie, avgLodging) = dailyRates cfg rateData;
          dailyTotal = jadd mie avgLodging
      in (\<lparr> totalExpected = jmul dailyTotal duration,
            breakdown = [\<lparr> item_location = toStr city @ '', '' @ toStr state,
                           item_date = or_val (get mergedData ''tripDate'') (Str today),
                           item_mie = mie, item_lodging = avgLodging,
                           item_total = dailyTotal \<rparr>] \<rparr>,
          (if rateData = None then [''Unable to fetch GSA rates - using default values'']
           else [])))"

text \<open>
  The result. A rejected request carries the errors of the form validation; a completed
  one the report and the figures derived from it (the \<open>message\<close>, a rendering of
  \<open>isValid\<close> and \<open>variancePercent\<close>, is left out); an exception anywhere gives the
  system error.
\<close>

record completed =
  res_warnings :: "string list"
  res_extractedData :: obj
  validationReport :: report
  res_isValid :: bool
  expectedCost :: string
  res_claimedCost :: string
  res_duration :: jsval
  res_variance :: string
  res_variancePercent :: string
  res_breakdown :: "costItem list"

datatype tar_result =
    Rejected "string list" "string list"
  | Completed completed
  | SystemError

text \<open>
  The first step, the extraction from an attached PDF: the extracted fields and the
  warnings so far. \<open>extract\<close> stands for \<open>extractTextFromPDF\<close> followed by
  \<open>extractGSAFormData\<close>, with no result when no text comes out of the document.
\<close>

definition extractStage :: "(jsval \<Rightarrow> obj option) \<Rightarrow> obj \<Rightarrow> obj \<times> string list" where
  "extractStage extract data =
     (if truthy (get data ''pdfContent'') then
        (case extract (get data ''pdfContent'') of
           Some x \<Rightarrow> (x, [])
         | None \<Rightarrow> (Map.empty, [''PDF extraction failed - using manual input'']))
      else (Map.empty, []))"

text \<open>The test \<open>mergedData.itinerary && mergedData.itinerary.length > 0\<close>.\<close>

fun hasItinerary :: "jsval \<Rightarrow> bool" where
  "hasItinerary (Stops l) = (l \<noteq> [])"
| "hasItinerary (Str s) = (s \<noteq> [])"
| "hasItinerary _ = False"

text \<open>
  The expected costs and the warnings of that step. An itinerary that is a string has
  no \<open>forEach\<close>: the call of \<open>calculateExpectedCosts\<close> raises, and there is no result.
\<close>

definition expectedCostsOf ::
    "config \<Rightarrow> (string \<Rightarrow> string \<Rightarrow> obj option) \<Rightarrow> string \<Rightarrow> obj
       \<Rightarrow> (expectedCosts \<times> string list) option" where
  "expectedCostsOf cfg api today mergedData =
     (if hasItinerary (get mergedData ''itinerary'') then
        (case get mergedData ''itinerary'' of
           Stops l \<Rightarrow> Some (calculateExpectedCosts cfg api l, [])
         | _ \<Rightarrow> None)
      else Some (durationCosts cfg api today mergedData))"

text \<open>The report and the result built from it. Writing the log has no part in the result.\<close>

definition finishValidation ::
    "config \<Rightarrow> obj \<Rightarrow> string list \<Rightarrow> obj \<Rightarrow> expectedCosts \<times> string list \<Rightarrow> completed" where
  "finishValidation cfg extractedData warnings0 mergedData costs =
     (let expected = fst costs;
          totalCost = toNumberVal (get mergedData ''totalCost'');
          rep = generateValidationReport cfg mergedData expected totalCost
      in \<lparr> res_warnings = warnings0 @ snd costs,
           res_extractedData = extractedData,
           validationReport = rep,
           res_isValid = (isWithinBuffer rep \<and> isWithinDeviation rep),
           expectedCost = toFixed2 (totalExpected expected),
           res_claimedCost = toFixed2 totalCost,
           res_duration = get mergedData ''duration'',
           res_variance = toFixed2 (variance rep),
           res_variancePercent = variancePercent rep,
           res_breakdown = breakdown expected \<rparr>)"

text \<open>The whole function.\<close>

definition validateTarWithPerDiem ::
    "config \<Rightarrow> (string \<Rightarrow> string \<Rightarrow> obj option) \<Rightarrow> (jsval \<Rightarrow> obj option) \<Rightarrow> string \<Rightarrow> obj
       \<Rightarrow> tar_result" where
  "validateTarWithPerDiem cfg api extract today data =
     (let extracted = extractStage extract data;
          mergedData = mergeTarData (fst extracted) data;
          validation = validateFormData cfg mergedData
      in if \<not> isValid validation then Rejected (errors validation) (snd extracted)
         else (case expectedCostsOf cfg api today mergedData of
                 None \<Rightarrow> SystemError
               | Some costs \<Rightarrow>
                   Completed (finishValidation cfg (fst extracted) (snd extracted)
                                mergedData costs)))"

section \<open>Cleaning extracted text (document_processor.js)\<close>

definition LF :: char where
  "LF = CHR 0x0A"

definition CR :: char where
  "CR = CHR 0x0D"

text \<open>\<open>replace(/\s+/g, " ")\<close>\<close>

function collapseWhitespace :: "string \<Rightarrow> string" where
  "collapseWhitespace [] = []"
| "collapseWhitespace (c # cs) =
     (if is_space c then CHR '' '' # collapseWhitespace (dropWhile is_space cs)
      else c # collapseWhitespace cs)"
  by pat_completeness auto
termination
  by (relation "measure length") (auto simp: less_Suc_eq_le length_dropWhile_le)

text \<open>What follows the last line feed of a run of white space.\<close>

definition afterLastLF :: "string \<Rightarrow> string" where
  "afterLastLF w = rev (takeWhile (\<lambda>c. c \<noteq> LF) (rev w))"

text \<open>
  \<open>replace(/\n\s*\n/g, "\n")\<close>: a line feed, the white space after it up to its last
  line feed, becomes one line feed; the scan goes on behind the match.
\<close>

function collapseBlankLines :: "string \<Rightarrow> string" where
  "collapseBlankLines [] = []"
| "collapseBlankLines (c # cs) =
     (if c = LF \<and> LF \<in> set (takeWhile is_space cs)
      then LF # collapseBlankLines (afterLastLF (takeWhile is_space cs) @ dropWhile is_space cs)
      else c # collapseBlankLines cs)"
  by pat_completeness auto
termination
proof (relation "measure length")
  show "wf (measure length)" by simp
next
  fix c :: char and cs :: string
  have "length (afterLastLF (takeWhile is_space cs)) \<le> length (takeWhile is_space cs)"
    unfolding afterLastLF_def by (metis length_rev length_takeWhile_le)
  moreover have "length (takeWhile is_space cs) + length (dropWhile is_space cs) = length cs"
    by (metis length_append takeWhile_dropWhile_id)
  ultimately show "(afterLastLF (takeWhile is_space cs) @ dropWhile is_space cs, c # cs)
      \<in> measure length"
    by simp
next
  fix c :: char and cs :: string
  show "(cs, c # cs) \<in> measure length" by simp
qed

text \<open>The class \<open>\w\<close> and the characters the third replacement keeps.\<close>

definition is_word :: "char \<Rightarrow> bool" where
  "is_word c =
     (let n = (of_char c :: nat)
      in (65 \<le> n \<and> n \<le> 90) \<or> (97 \<le> n \<and> n \<le> 122) \<or> (48 \<le> n \<and> n \<le> 57) \<or> n = 95)"

definition allowedChar :: "char \<Rightarrow> bool" where
  "allowedChar c = (is_word c \<or> is_space c \<or> c \<in> set ''$.,()-:/&#'')"

text \<open>\<open>replace(/\$\s+/g, "$")\<close>\<close>

function tightenDollar :: "string \<Rightarrow> string" where
  "tightenDollar [] = []"
| "tightenDollar (c # cs) =
     (if c = CHR ''$'' \<and> takeWhile is_space cs \<noteq> []
      then CHR ''$'' # tightenDollar (dropWhile is_space cs)
      else c # tightenDollar cs)"
  by pat_completeness auto
termination
  by (relation "measure length") (auto simp: less_Suc_eq_le length_dropWhile_le)

text \<open>
  \<open>replace(/[..](?=\d)/g, r)\<close>: a character of the class that stands before a digit
  becomes \<open>r\<close>.
\<close>

fun fixBeforeDigit :: "(char \<Rightarrow> bool) \<Rightarrow> char \<Rightarrow> string \<Rightarrow> string" where
  "fixBeforeDigit p r [] = []"
| "fixBeforeDigit p r [c] = [c]"
| "fixBeforeDigit p r (c # d # cs) =
     (if p c \<and> is_digit d then r else c) # fixBeforeDigit p r (d # cs)"

definition cleanExtractedText :: "string \<Rightarrow> string" where
  "cleanExtractedText text =
     (if text = [] then []
      else trim
        (fixBeforeDigit (\<lambda>c. c = CHR ''S'' \<or> c = CHR ''s'') (CHR ''5'')
          (fixBeforeDigit (\<lambda>c. c = CHR ''I'' \<or> c = CHR ''l'') (CHR ''1'')
            (fixBeforeDigit (\<lambda>c. c = CHR ''O'' \<or> c = CHR ''o'') (CHR ''0'')
              (tightenDollar
                (filter allowedChar
                  (collapseBlankLines (collapseWhitespace text))))))))"

text \<open>
  What the group \<open>([^\n\r]+)\<close> at the end of a field pattern captures when it starts at
  the text \<open>rest\<close>: the longest run without a line break.
\<close>

definition lineCapture :: "string \<Rightarrow> string" where
  "lineCapture rest = takeWhile (\<lambda>c. c \<noteq> LF \<and> c \<noteq> CR) rest"

section \<open>Date normalisation (document_processor.js)\<close>

text \<open>\<open>re.test(s)\<close> for a pattern without anchors: some part of the string matches.\<close>

definition rx_test :: "rx \<Rightarrow> string \<Rightarrow> bool" where
  "rx_test r s = list_ex (\<lambda>t. list_ex (rx_match r) (prefixes t)) (suffixes s)"

text \<open>\<open>/\d{1,2}\/\d{1,2}\/\d{4}/\<close> and the same with a dash, by the separator.\<close>

definition datePattern :: "char \<Rightarrow> rx" where
  "datePattern sep =
     Rseq (rx_rep 1 2 (Rcls is_digit))
       (Rseq (rx_chr sep)
         (Rseq (rx_rep 1 2 (Rcls is_digit))
           (Rseq (rx_chr sep) (rx_times 4 (Rcls is_digit)))))"

definition padStart2 :: "string \<Rightarrow> string" where
  "padStart2 p = replicate (2 - length p) (CHR ''0'') @ p"

text \<open>
  The rewriting of one branch from the parts of the split. With fewer than three parts
  the source would call \<open>padStart\<close> on undefined and land in its \<open>catch\<close>.
\<close>

definition rewriteDate :: "char \<Rightarrow> string \<Rightarrow> string option" where
  "rewriteDate sep s =
     (case splitOn sep s of
        p0 # p1 # p2 # _ \<Rightarrow> Some (p2 @ ''-'' @ padStart2 p0 @ ''-'' @ padStart2 p1)
      | _ \<Rightarrow> None)"

text \<open>The month and the day of a string of the shape \<open>dddd-dd-dd\<close>.\<close>

definition isoDateOnly :: "string \<Rightarrow> (int \<times> int) option" where
  "isoDateOnly s =
     (case s of
        [y1, y2, y3, y4, a, m1, m2, b, d1, d2] \<Rightarrow>
          if list_all is_digit [y1, y2, y3, y4, m1, m2, d1, d2] \<and> a = CHR ''-'' \<and> b = CHR ''-''
          then Some (digits_val [m1, m2], digits_val [d1, d2]) else None
      | _ \<Rightarrow> None)"

text \<open>
  Whether \<open>new Date(s)\<close> is a valid date. A string in the date-only form of the standard
  date-time format is valid when its month is 1 to 12 and its day 1 to 31 (V8 does not
  test the day against the month); what any other string gives is left to the engine,
  the parameter \<open>legacy\<close>.
\<close>

definition dateParses :: "(string \<Rightarrow> bool) \<Rightarrow> string \<Rightarrow> bool" where
  "dateParses legacy s =
     (case isoDateOnly s of
        Some (m, d) \<Rightarrow> 1 \<le> m \<and> m \<le> 12 \<and> 1 \<le> d \<and> d \<le> 31
      | None \<Rightarrow> legacy s)"

text \<open>\<open>normalizeDate\<close>; the result \<open>None\<close> is null.\<close>

definition normalizeDate :: "(string \<Rightarrow> bool) \<Rightarrow> string \<Rightarrow> string option" where
  "normalizeDate legacy dateString =
     (if dateString = [] then None
      else
        (case (if rx_test (datePattern (CHR ''/'')) dateString
               then rewriteDate (CHR ''/'') dateString else Some dateString) of
           None \<Rightarrow> Some dateString
         | Some n1 \<Rightarrow>
             (case (if rx_test (datePattern (CHR ''-'')) dateString
                    then rewriteDate (CHR ''-'') dateString else Some n1) of
                None \<Rightarrow> Some dateString
              | Some normalized \<Rightarrow>
                  if \<not> dateParses legacy normalized then Some dateString
                  else Some normalized)))"

section \<open>Pairing dates and locations of an itinerary\<close>

text \<open>
  Both extractors first find the itinerary section and collect the matches of a date
  pattern and of a location pattern in it. The functions below are the loops that
  combine the two lists: \<open>dates\<close> holds the first group of every date match,
  \<open>captures\<close> the two groups (city and state) of every location match.
\<close>

subsection \<open>\<open>extractItineraryDataEnhanced\<close> (document_processor.js)\<close>

definition enhancedItem ::
    "(string \<Rightarrow> bool) \<Rightarrow> string list \<Rightarrow> (string \<times> string) list \<Rightarrow> nat \<Rightarrow> stop" where
  "enhancedItem legacy dates locations i =
     \<lparr> stop_date = (if i < length dates then normalizeDate legacy (dates ! i) else None),
       stop_city = (if i < length locations then Some (fst (locations ! i))
                    else if locations \<noteq> [] then Some (fst (last locations)) else None),
       stop_state = (if i < length locations then Some (snd (locations ! i))
                     else if locations \<noteq> [] then Some (snd (last locations)) else None) \<rparr>"

definition combineEnhanced ::
    "(string \<Rightarrow> bool) \<Rightarrow> string list \<Rightarrow> (string \<times> string) list \<Rightarrow> stop list" where
  "combineEnhanced legacy dates captures =
     (let locations = map (\<lambda>(c, s). (trim c, trim s)) captures;
          maxItems = max (length dates) (length locations)
      in filter (\<lambda>item. truthy (optVal (stop_city item)) \<or> truthy (optVal (stop_date item)))
           (map (enhancedItem legacy dates locations) [0..<maxItems]))"

subsection \<open>\<open>extractItineraryData\<close> (utils.js, utils.gs)\<close>

definition combineBasic :: "string list \<Rightarrow> (string \<times> string) list \<Rightarrow> stop list" where
  "combineBasic dates captures =
     map (\<lambda>i. \<lparr> stop_date = Some (dates ! i),
                 stop_city = Some (trim (fst (captures ! i))),
                 stop_state = Some (trim (snd (captures ! i))) \<rparr>)
       [0..<min (length dates) (length captures)]"

section \<open>Aggregating the rows of one TAR ID (main.gs, client.js)\<close>

text \<open>A CSV record: the value of each column, a string.\<close>

type_synonym row = "string \<rightharpoonup> string"

definition col :: "row \<Rightarrow> string \<Rightarrow> jsval" where
  "col r k = (case r k of None \<Rightarrow> Undefined | Some s \<Rightarrow> Str s)"

text \<open>
  One step of the search for the earliest start (\<open>later = False\<close>) or the latest end
  (\<open>later = True\<close>). \<open>parseDate\<close> stands for \<open>new Date(s)\<close>: the time value, or nothing
  for an invalid date.
\<close>

definition pickDate :: "(string \<Rightarrow> int option) \<Rightarrow> bool \<Rightarrow> int option \<Rightarrow> jsval \<Rightarrow> int option" where
  "pickDate parseDate later acc raw =
     (if truthy raw then
        (case parseDate (toStr raw) of
           None \<Rightarrow> acc
         | Some d \<Rightarrow>
             (case acc of
                None \<Rightarrow> Some d
              | Some a \<Rightarrow> if (if later then d > a else d < a) then Some d else acc))
      else acc)"

definition nonBlank :: "row \<Rightarrow> string \<Rightarrow> bool" where
  "nonBlank r k = (truthy (col r k) \<and> trim (toStr (col r k)) \<noteq> [])"

text \<open>
  The body of the loop over the groups, for the group \<open>base # others\<close>. \<open>isoDay\<close> stands
  for \<open>d.toISOString().split('T')[0]\<close>.
\<close>

definition aggregateGroup ::
    "(string \<Rightarrow> int option) \<Rightarrow> (int \<Rightarrow> string) \<Rightarrow> row \<Rightarrow> row list \<Rightarrow> row" where
  "aggregateGroup parseDate isoDay base others =
     (let recs = base # others;
          startDate = foldl (\<lambda>acc r. pickDate parseDate False acc
                        (or_val (col r ''Departure Date'')
                           (or_val (col r ''Date Submitted'') (Str [])))) None recs;
          endDate = foldl (\<lambda>acc r. pickDate parseDate True acc
                        (or_val (col r ''Return Date'') (Str []))) None recs;
          agg1 = (case startDate of None \<Rightarrow> base
                  | Some d \<Rightarrow> base(''Departure Date'' \<mapsto> isoDay d));
          agg2 = (case endDate of None \<Rightarrow> agg1
                  | Some d \<Rightarrow> agg1(''Return Date'' \<mapsto> isoDay d));
          dest = ''Destination (City, State, Country)'';
          agg3 = (case find (\<lambda>r. nonBlank r dest) recs of None \<Rightarrow> agg2
                  | Some r \<Rightarrow> agg2(dest := r dest));
          purposeRec = find (\<lambda>r. nonBlank r ''Travel Purpose'') recs;
          commentRec = find (\<lambda>r. nonBlank r ''Comments'') recs;
          agg4 = agg3(''Travel Purpose'' :=
                   (case purposeRec of
                      Some r \<Rightarrow> r ''Travel Purpose''
                    | None \<Rightarrow> (case commentRec of Some r \<Rightarrow> r ''Comments''
                                | None \<Rightarrow> Some [])));
          baseActual = num_or (parseFloatVal (col base ''Total Actual Cost'')) (Fin 0);
          sumCost = foldl (\<lambda>sum r. jadd sum
                       (num_or (parseFloatVal (col r ''Cost Type Value'')) (Fin 0))) (Fin 0) recs;
          totalActual = num_or baseActual sumCost;
          agg5 = agg4(''Total Actual Cost'' \<mapsto>
                   (if num_truthy totalActual then numToString totalActual else ''0''));
          estRec = find (\<lambda>r. jgt (parseFloatVal (col r ''Total Travel Estimate'')) (Fin 0)) recs
      in agg5(''Total Travel Estimate'' :=
           (case estRec of
              Some r \<Rightarrow> r ''Total Travel Estimate''
            | None \<Rightarrow> Some (toStr (or_val (col base ''Total Travel Estimate'') (Str []))))))"

text \<open>
  The total the specification asks for: the first explicit total of the group that is
  not zero, and the sum of the itemised values when there is none.
\<close>

definition specTotalActual :: "row list \<Rightarrow> jsnum" where
  "specTotalActual recs =
     (case find (\<lambda>r. num_truthy (parseFloatVal (col r ''Total Actual Cost''))) recs of
        Some r \<Rightarrow> parseFloatVal (col r ''Total Actual Cost'')
      | None \<Rightarrow> foldl (\<lambda>sum r. jadd sum
                  (num_or (parseFloatVal (col r ''Cost Type Value'')) (Fin 0))) (Fin 0) recs)"

section \<open>The tolerances as the specification states them\<close>

text \<open>
  For a claimed cost \<open>c\<close> and an expected total \<open>e\<close>: the variance stays within the buffer
  of 10, and the variance in percent of the expected total (0 when the expected total is
  0) stays within 15.
\<close>

definition specWithinBuffer :: "rat \<Rightarrow> rat \<Rightarrow> bool" where
  "specWithinBuffer c e = (\<bar>c - e\<bar> \<le> 10)"

definition specWithinDeviation :: "rat \<Rightarrow> rat \<Rightarrow> bool" where
  "specWithinDeviation c e = (\<bar>if e = 0 then 0 else 100 * (c - e) / e\<bar> \<le> 15)"




section \<open>Sample inputs\<close>

text \<open>A rate object with the given meals rate and the same lodging rate in every month.\<close>

definition rateObject :: "string \<Rightarrow> string \<Rightarrow> obj" where
  "rateObject meals monthly =
     (\<lambda>k. if k = ''Meals'' then Some (Str meals)
          else if k \<in> set monthNames then Some (Str monthly) else None)"

text \<open>A rate source that knows Washington, DC only.\<close>

definition washingtonOnly :: "obj \<Rightarrow> string \<Rightarrow> string \<Rightarrow> obj option" where
  "washingtonOnly rate city state =
     (if city = ''Washington'' \<and> state = ''DC'' then Some rate else None)"

text \<open>A manual request for Washington, DC with the given duration and total cost.\<close>

definition manualRequest :: "jsval \<Rightarrow> jsval \<Rightarrow> obj" where
  "manualRequest duration totalCost =
     [''traveler'' \<mapsto> Str ''Ann Lee'', ''purpose'' \<mapsto> Str ''Site visit'',
      ''city'' \<mapsto> Str ''Washington'', ''state'' \<mapsto> Str ''DC'',
      ''poc'' \<mapsto> Str ''(555) 123-4567'',
      ''duration'' \<mapsto> duration, ''totalCost'' \<mapsto> totalCost]"

text \<open>One day in Washington, DC at the default rates.\<close>

definition defaultDay :: costItem where
  "defaultDay = \<lparr> item_location = ''Washington, DC'', item_date = Str ''2025-06-01'',
                   item_mie = Fin 79, item_lodging = Fin 150, item_total = Fin 229 \<rparr>"

section \<open>The form validation as the specification states it\<close>

text \<open>A field is present when it is neither undefined nor null.\<close>

definition present :: "jsval \<Rightarrow> bool" where
  "present v = (v \<noteq> Undefined \<and> v \<noteq> Null)"

text \<open>A required field: present and, if a string, not blank after trimming.\<close>

definition requiredOk :: "obj \<Rightarrow> string \<Rightarrow> bool" where
  "requiredOk data f =
     (present (get data f) \<and> (case get data f of Str s \<Rightarrow> trim s \<noteq> [] | _ \<Rightarrow> True))"

definition positiveNumber :: "jsval \<Rightarrow> bool" where
  "positiveNumber v = (case v of Number n \<Rightarrow> jgt n (Fin 0) | _ \<Rightarrow> False)"

text \<open>
  Every required field is there, and each of vendor code, contact number and estimated
  cost, when present, has its format.
\<close>

definition specFormValid :: "config \<Rightarrow> obj \<Rightarrow> bool" where
  "specFormValid cfg data =
     (list_all (requiredOk data) (requiredFields cfg)
      \<and> (present (get data ''vendorCode'')
           \<longrightarrow> rx_match (vendorCodeFormat cfg) (trim (toStr (get data ''vendorCode''))))
      \<and> (present (get data ''contactNumber'')
           \<longrightarrow> rx_match (phoneFormat cfg) (stripSeparators (toStr (get data ''contactNumber''))))
      \<and> (present (get data ''estimatedCost'') \<longrightarrow> positiveNumber (get data ''estimatedCost'')))"

text \<open>A complete record with the given vendor code and contact number.\<close>

definition formRecord :: "jsval \<Rightarrow> jsval \<Rightarrow> obj" where
  "formRecord vendorCode contactNumber =
     [''travelerName'' \<mapsto> Str ''Ann Lee'', ''travelPurpose'' \<mapsto> Str ''Site visit'',
      ''estimatedCost'' \<mapsto> Number (Fin 1200), ''dutyStation'' \<mapsto> Str ''Washington, DC'',
      ''contactNumber'' \<mapsto> contactNumber, ''vendorCode'' \<mapsto> vendorCode]"

text \<open>A cost line of a TAR with its explicit total and its itemised value.\<close>

definition costRow :: "string \<Rightarrow> string \<Rightarrow> row" where
  "costRow explicitTotal itemValue =
     [''TAR ID'' \<mapsto> ''T-1'', ''Total Actual Cost'' \<mapsto> explicitTotal, ''Cost Type Value'' \<mapsto> itemValue]"

section \<open>Properties of the averaging\<close>

lemma digits_val_Nil [simp]: "digits_val [] = 0"
  by (simp add: digits_val_def)

lemma digit_not_special:
  assumes "is_digit c"
  shows "\<not> is_space c" "c \<noteq> CHR ''-''" "c \<noteq> CHR ''+''" "c \<noteq> CHR ''.''" "c \<noteq> CHR ''I''"
  using assms by (auto simp: is_digit_def is_space_def)

lemma not_digit_chars [simp]: "\<not> is_digit (CHR ''.'')" "\<not> is_digit (CHR ''-'')"
  by (simp_all add: is_digit_def)

lemma decimalValue_cases:
  assumes "decimalValue s = Some r"
  obtains (int) "s \<noteq> []" "list_all is_digit s" "r = of_int (digits_val s)"
  | (frac) ip fp where "s = ip @ CHR ''.'' # fp" "ip \<noteq> []" "list_all is_digit ip"
      "fp \<noteq> []" "list_all is_digit fp"
      "r = of_int (digits_val ip) + of_int (digits_val fp) / 10 ^ length fp"
proof -
  let ?ip = "takeWhile is_digit s" and ?r = "dropWhile is_digit s"
  have s: "s = ?ip @ ?r" by simp
  have ip: "?ip \<noteq> []" using assms by (auto simp: decimalValue_def Let_def split: if_splits)
  have ipd: "list_all is_digit ?ip" by (simp add: list_all_iff) (meson set_takeWhileD)
  show thesis
  proof (cases ?r)
    case Nil
    then have "s = ?ip" using s by (metis append_Nil2)
    moreover have "r = of_int (digits_val ?ip)" using assms ip Nil by (simp add: decimalValue_def Let_def)
    ultimately show thesis using int ip ipd by metis
  next
    case (Cons c fp)
    then have c: "c = CHR ''.''" "fp \<noteq> []" "list_all is_digit fp"
      and r: "r = of_int (digits_val ?ip) + of_int (digits_val fp) / 10 ^ length fp"
      using assms ip by (auto simp: decimalValue_def Let_def split: if_splits)
    have "s = ?ip @ CHR ''.'' # fp" using s Cons c by metis
    then show thesis using frac ip ipd c r by blast
  qed
qed

lemma decimalValue_chars:
  assumes "decimalValue s = Some r" "c \<in> set s"
  shows "is_digit c \<or> c = CHR ''.''"
  using assms(1)
proof (cases rule: decimalValue_cases)
  case int then show ?thesis using assms(2) by (auto simp: list_all_iff)
next
  case (frac ip fp) then show ?thesis using assms(2) by (auto simp: list_all_iff)
qed

lemma decimalValue_nonempty: "decimalValue s = Some r \<Longrightarrow> s \<noteq> []"
  by (auto simp: decimalValue_def)

lemma decimalValue_no_minus: "decimalValue s = Some r \<Longrightarrow> CHR ''-'' \<notin> set s"
  using decimalValue_chars by fastforce

lemma decimalValue_no_space: "decimalValue s = Some r \<Longrightarrow> c \<in> set s \<Longrightarrow> \<not> is_space c"
  using decimalValue_chars digit_not_special(1) by (fastforce simp: is_space_def)

lemma trim_id:
  assumes "\<And>c. c \<in> set s \<Longrightarrow> \<not> is_space c"
  shows "trim s = s"
proof -
  have d: "dropWhile P xs = xs" if "\<And>c. c \<in> set xs \<Longrightarrow> \<not> P c" for P :: "char \<Rightarrow> bool" and xs
    using that by (cases xs) auto
  have "dropWhile is_space s = s" using assms by (intro d)
  moreover have "dropWhile is_space (rev s) = rev s" using assms by (intro d) simp
  ultimately show ?thesis by (simp add: trim_def)
qed

lemma decimalValue_head_digit:
  assumes "decimalValue s = Some r" obtains c t where "s = c # t" "is_digit c"
proof -
  have "takeWhile is_digit s \<noteq> []" using assms by (auto simp: decimalValue_def Let_def split: if_splits)
  then show thesis using that by (cases s) (auto split: if_splits)
qed

lemma parseFloat_decimal:
  assumes "decimalValue s = Some r"
  shows "parseFloat s = Fin r"
proof -
  obtain c t where s: "s = c # t" and c: "is_digit c" using assms by (rule decimalValue_head_digit)
  have pre: "dropWhile is_space s = s" "scanSign s = (False, s)" "take 8 s \<noteq> ''Infinity''"
    using s c digit_not_special[OF c] by (auto simp: scanSign_def)
  have "scanDecimal s = Some (r, [])"
    using assms
  proof (cases rule: decimalValue_cases)
    case int
    then have tw: "takeWhile is_digit s = s" "dropWhile is_digit s = []" by (auto simp: list_all_iff)
    show ?thesis using int(1,3) by (simp add: scanDecimal_def tw scanExponent_def exp10_def)
  next
    case (frac ip fp)
    have a: "takeWhile is_digit s = ip" using frac by (simp add: list_all_iff takeWhile_append2)
    have b: "dropWhile is_digit s = CHR ''.'' # fp" using frac by (simp add: list_all_iff dropWhile_append2)
    have d: "takeWhile is_digit fp = fp" "dropWhile is_digit fp = []" using frac by (auto simp: list_all_iff)
    show ?thesis using frac(2,4,6) by (simp add: scanDecimal_def a b d scanExponent_def exp10_def)
  qed
  then show ?thesis using pre by (simp add: parseFloat_def)
qed


lemma splitOn_no_sep: "c \<notin> set s \<Longrightarrow> splitOn c s = [s]"
  by (induction s) auto

lemma splitOn_append: "c \<notin> set a \<Longrightarrow> splitOn c (a @ c # b) = a # splitOn c b"
  by (induction a) auto

lemma rangeBounds_cases:
  assumes "rangeBounds s = Some (a, b)"
  obtains lo hi where "s = lo @ CHR ''-'' # hi" "decimalValue lo = Some a" "decimalValue hi = Some b"
proof -
  define lo where "lo = takeWhile (\<lambda>c. c \<noteq> CHR ''-'') s"
  define r where "r = dropWhile (\<lambda>c. c \<noteq> CHR ''-'') s"
  have rb: "(case r of [] \<Rightarrow> None
             | _ # hi \<Rightarrow> (case (decimalValue lo, decimalValue hi) of
                           (Some a, Some b) \<Rightarrow> Some (a, b) | _ \<Rightarrow> None)) = Some (a, b)"
    using assms unfolding rangeBounds_def lo_def r_def .
  then obtain x hi where r: "r = x # hi" by (cases r) simp_all
  have "r \<noteq> []" using r by simp
  then have "\<not> (hd r \<noteq> CHR ''-'')" unfolding r_def by (rule hd_dropWhile)
  then have x: "x = CHR ''-''" using r by simp
  have "s = lo @ r" unfolding lo_def r_def by simp
  then have s: "s = lo @ CHR ''-'' # hi" using r x by simp
  have d: "decimalValue lo = Some a \<and> decimalValue hi = Some b"
    using rb unfolding r by (cases "decimalValue lo"; cases "decimalValue hi") simp_all
  show thesis using that[OF s] d by blast
qed

lemma parseRate_range:
  assumes "rangeBounds s = Some (a, b)"
  shows "parseRate (Str s) = Fin ((a + b) / 2)"
proof -
  obtain lo hi where s: "s = lo @ CHR ''-'' # hi"
    and lo: "decimalValue lo = Some a" and hi: "decimalValue hi = Some b"
    using assms by (rule rangeBounds_cases)
  have "splitOn (CHR ''-'') s = [lo, hi]"
    using s decimalValue_no_minus[OF lo] decimalValue_no_minus[OF hi]
    by (simp add: splitOn_append splitOn_no_sep)
  moreover have "trim lo = lo" "trim hi = hi"
    using decimalValue_no_space[OF lo] decimalValue_no_space[OF hi] by (auto intro: trim_id)
  moreover have "CHR ''-'' \<in> set s" using s by simp
  ultimately show ?thesis
    using parseFloat_decimal[OF lo] parseFloat_decimal[OF hi]
    by (simp add: parseRate_def isNaN_def)
qed

lemma parseRate_spec:
  assumes "entry_ok v"
  shows "parseRate v = (case specRate v of Some r \<Rightarrow> Fin r | None \<Rightarrow> NaN)"
proof (cases v)
  case (Str s)
  show ?thesis
  proof (cases "decimalValue s")
    case (Some r)
    then show ?thesis
      using Str decimalValue_no_minus[OF Some] parseFloat_decimal[OF Some]
      by (simp add: parseRate_def)
  next
    case None
    show ?thesis
    proof (cases "rangeBounds s")
      case (Some ab)
      then show ?thesis using Str None parseRate_range[of s "fst ab" "snd ab"] by (cases ab) simp
    next
      case N: None
      then show ?thesis using Str None assms by simp
    qed
  qed
next
  case (Number n)
  then show ?thesis using assms by (cases n) (simp_all add: parseRate_def)
qed (simp_all add: parseRate_def)

lemma nums_spec:
  assumes "\<forall>v \<in> set vals. entry_ok v"
  shows "filter (\<lambda>n. \<not> isNaN n) (map parseRate vals) = map Fin (List.map_filter specRate vals)"
  using assms
proof (induction vals)
  case Nil
  then show ?case by (simp add: map_filter_simps)
next
  case (Cons v vs)
  then show ?case
    by (cases "specRate v") (simp_all add: parseRate_spec map_filter_simps isNaN_def)
qed

lemma foldl_jadd_Fin: "foldl jadd (Fin a) (map Fin xs) = Fin (a + sum_list xs)"
  by (induction xs arbitrary: a) (simp_all add: add.assoc)

text \<open>
  Claim C5. For an array of monthly rate values in which every entry is a finite number,
  a numeric string, a \<open>low-high\<close> range string, absent, or something the code cannot
  parse, \<open>average\<close> returns the arithmetic mean of the parseable entries, a range counting
  as its midpoint and the other entries left out of sum and count; with no parseable
  entry the result is 0. The model has no error branch: \<open>average\<close> never raises.
\<close>

theorem average_is_mean:
  assumes "\<forall>v \<in> set vals. entry_ok v"
  shows "average vals = specAverage vals"
proof -
  let ?xs = "List.map_filter specRate vals"
  have n: "filter (\<lambda>n. \<not> isNaN n) (map parseRate vals) = map Fin ?xs"
    using assms by (rule nums_spec)
  show ?thesis
  proof (cases "?xs = []")
    case True
    then show ?thesis by (simp add: average_def specAverage_def n)
  next
    case False
    then have "rat_of_nat (length ?xs) \<noteq> 0" by simp
    then show ?thesis using False
      by (simp add: average_def specAverage_def n foldl_jadd_Fin Let_def)
  qed
qed

theorem average_is_mean_witness:
  "entry_ok (Str ''130-150'') \<and> entry_ok (Number (Fin 100)) \<and> entry_ok Undefined
   \<and> entry_ok (Str ''n/a'') \<and> entry_ok (Str ''79.5'')
   \<and> average [Str ''130-150'', Number (Fin 100), Undefined, Str ''n/a'', Str ''79.5'']
       = Fin (213 / 2)"
proof -
  have h: "\<forall>v \<in> set [Str ''130-150'', Number (Fin 100), Undefined, Str ''n/a'', Str ''79.5'']. entry_ok v"
    by code_simp
  have "specAverage [Str ''130-150'', Number (Fin 100), Undefined, Str ''n/a'', Str ''79.5'']
          = Fin (213 / 2)"
    by code_simp
  then show ?thesis using h average_is_mean[OF h] by simp
qed

section \<open>Properties of the validation report\<close>

lemma jsub_Fin [simp]: "jsub (Fin a) (Fin b) = Fin (a - b)"
  by (simp add: jsub_def)

text \<open>The report of utils.gs has the guard against an expected total of 0.\<close>

lemma gs_zero_guard:
  assumes "totalExpected expected = Fin 0"
  shows "variancePercent (generateValidationReport_gs cfg d expected c) = ''0.00''
       \<and> toNumber (variancePercent (generateValidationReport_gs cfg d expected c)) = Fin 0"
proof -
  have "toFixed2 (Fin 0) = ''0.00''" by code_simp
  moreover have "toNumber ''0.00'' = Fin 0" by code_simp
  ultimately show ?thesis using assms by (simp add: generateValidationReport_gs_def Let_def)
qed

text \<open>
  Claim C1, on utils.js. The report of utils.js divides by the expected total without
  a guard. For the expected costs of an empty itinerary, whose total is 0, a claimed
  cost of 100 gives the variance percent \<open>Infinity\<close> and a claimed cost of 0 gives \<open>NaN\<close>.
\<close>

theorem report_without_zero_guard:
  "totalExpected (calculateExpectedCosts CONFIG (\<lambda>c s. None) []) = Fin 0
   \<and> variancePercent (generateValidationReport CONFIG Map.empty
         (calculateExpectedCosts CONFIG (\<lambda>c s. None) []) (Fin 100)) = ''Infinity''
   \<and> variancePercent (generateValidationReport CONFIG Map.empty
         (calculateExpectedCosts CONFIG (\<lambda>c s. None) []) (Fin 0)) = ''NaN''"
  by code_simp

text \<open>
  For a positive expected total the two flags of utils.js are the tolerances of the
  specification; the flags of utils.gs are for every expected total.
\<close>

lemma report_flags_positive_total:
  assumes "0 < e"
  shows "isWithinBuffer (generateValidationReport CONFIG d
            \<lparr>totalExpected = Fin e, breakdown = b\<rparr> (Fin c)) = specWithinBuffer c e
       \<and> isWithinDeviation (generateValidationReport CONFIG d
            \<lparr>totalExpected = Fin e, breakdown = b\<rparr> (Fin c)) = specWithinDeviation c e"
proof -
  have "\<bar>100 * (c - e) / e\<bar> = \<bar>c - e\<bar> / e * 100"
    unfolding abs_divide abs_mult using assms by simp
  then show ?thesis using assms
    by (simp add: generateValidationReport_def CONFIG_def Let_def
        specWithinBuffer_def specWithinDeviation_def)
qed

lemma report_gs_flags:
  "isWithinBuffer (generateValidationReport_gs CONFIG d
      \<lparr>totalExpected = Fin e, breakdown = b\<rparr> (Fin c)) = specWithinBuffer c e
   \<and> isWithinDeviation (generateValidationReport_gs CONFIG d
      \<lparr>totalExpected = Fin e, breakdown = b\<rparr> (Fin c)) = specWithinDeviation c e"
  by (simp add: generateValidationReport_gs_def CONFIG_def Let_def
        specWithinBuffer_def specWithinDeviation_def algebra_simps)

lemma report_examples:
  "isWithinBuffer (generateValidationReport CONFIG d
      \<lparr>totalExpected = Fin 1000, breakdown = b\<rparr> (Fin 1015)) = False"
  "isWithinDeviation (generateValidationReport CONFIG d
      \<lparr>totalExpected = Fin 1000, breakdown = b\<rparr> (Fin 1015)) = True"
  "isWithinBuffer (generateValidationReport CONFIG d
      \<lparr>totalExpected = Fin 1000, breakdown = b\<rparr> (Fin 1200)) = False"
  "isWithinDeviation (generateValidationReport CONFIG d
      \<lparr>totalExpected = Fin 1000, breakdown = b\<rparr> (Fin 1200)) = False"
  by (simp_all add: generateValidationReport_def CONFIG_def Let_def)

section \<open>Properties of \<open>validateTarWithPerDiem\<close>\<close>

lemma completed_parts:
  assumes "validateTarWithPerDiem cfg api extract today data = Completed r"
  obtains costs where
    "isValid (validateFormData cfg (mergeTarData (fst (extractStage extract data)) data))"
    "expectedCostsOf cfg api today (mergeTarData (fst (extractStage extract data)) data)
       = Some costs"
    "r = finishValidation cfg (fst (extractStage extract data)) (snd (extractStage extract data))
           (mergeTarData (fst (extractStage extract data)) data) costs"
  using assms
  by (auto simp: validateTarWithPerDiem_def Let_def split: if_splits option.splits)

lemma completed_isValid:
  assumes "validateTarWithPerDiem cfg api extract today data = Completed r"
  shows "res_isValid r
           = (isWithinBuffer (validationReport r) \<and> isWithinDeviation (validationReport r))"
  using assms by (rule completed_parts) (simp add: finishValidation_def Let_def)

text \<open>A request without a PDF that passes the form validation.\<close>

lemma validateTar_manual:
  assumes "\<not> truthy (get data ''pdfContent'')"
      and "isValid (validateFormData cfg (mergeTarData Map.empty data))"
      and "expectedCostsOf cfg api today (mergeTarData Map.empty data) = Some costs"
  shows "validateTarWithPerDiem cfg api extract today data
           = Completed (finishValidation cfg Map.empty [] (mergeTarData Map.empty data) costs)"
  using assms by (simp add: validateTarWithPerDiem_def extractStage_def Let_def)

lemma report_fields:
  "variance (generateValidationReport cfg d ex c) = jsub c (totalExpected ex)"
  "rep_expectedCosts (generateValidationReport cfg d ex c) = ex"
  "claimedCost (generateValidationReport cfg d ex c) = c"
  by (simp_all add: generateValidationReport_def Let_def)

lemma finished_fields:
  "validationReport (finishValidation cfg ex w md costs)
     = generateValidationReport cfg md (fst costs) (toNumberVal (get md ''totalCost''))"
  "res_isValid (finishValidation cfg ex w md costs)
     = (isWithinBuffer (validationReport (finishValidation cfg ex w md costs))
        \<and> isWithinDeviation (validationReport (finishValidation cfg ex w md costs)))"
  "res_breakdown (finishValidation cfg ex w md costs) = breakdown (fst costs)"
  "expectedCost (finishValidation cfg ex w md costs) = toFixed2 (totalExpected (fst costs))"
  "res_extractedData (finishValidation cfg ex w md costs) = ex"
  by (simp_all add: finishValidation_def Let_def)

text \<open>
  Claim C2, on utils.js. A request for one day less than none (duration -1) at a rate
  of 5 a day has the expected total -5. With a claimed cost of 0 the variance is 5,
  within the buffer, and 100 percent of the expected total in magnitude, beyond the
  deviation of 15; the report of utils.js compares the negative quotient with 15, sets
  \<open>isWithinDeviation\<close>, and the request is valid.
\<close>

theorem deviation_flag_negative_total:
  "(case validateTarWithPerDiem CONFIG (washingtonOnly (rateObject ''5'' ''0'')) (\<lambda>_. None)
           ''2025-06-01'' (manualRequest (Str ''-1'') (Str ''0'')) of
      Completed r \<Rightarrow>
        totalExpected (rep_expectedCosts (validationReport r)) = Fin (- 5)
        \<and> claimedCost (validationReport r) = Fin 0
        \<and> isWithinBuffer (validationReport r)
        \<and> isWithinDeviation (validationReport r)
        \<and> res_isValid r
    | _ \<Rightarrow> False)
   \<and> specWithinBuffer 0 (- 5) \<and> \<not> specWithinDeviation 0 (- 5)"
proof -
  let ?data = "manualRequest (Str ''-1'') (Str ''0'')"
  let ?api = "washingtonOnly (rateObject ''5'' ''0'')"
  let ?ex = "\<lparr>totalExpected = Fin (- 5),
              breakdown = [\<lparr>item_location = ''Washington, DC'', item_date = Str ''2025-06-01'',
                             item_mie = Fin 5, item_lodging = Fin 0, item_total = Fin 5\<rparr>]\<rparr>"
  have a: "\<not> truthy (get ?data ''pdfContent'')" by code_simp
  have b: "isValid (validateFormData CONFIG (mergeTarData Map.empty ?data))" by code_simp
  have c: "expectedCostsOf CONFIG ?api ''2025-06-01'' (mergeTarData Map.empty ?data)
             = Some (?ex, [])"
    by code_simp
  have d: "toNumberVal (get (mergeTarData Map.empty ?data) ''totalCost'') = Fin 0" by code_simp
  have e: "isWithinBuffer (generateValidationReport CONFIG (mergeTarData Map.empty ?data) ?ex (Fin 0))"
          "isWithinDeviation (generateValidationReport CONFIG (mergeTarData Map.empty ?data) ?ex (Fin 0))"
    by (simp_all add: generateValidationReport_def CONFIG_def Let_def)
  have f: "specWithinBuffer 0 (- 5) \<and> \<not> specWithinDeviation 0 (- 5)"
    by (simp add: specWithinBuffer_def specWithinDeviation_def)
  show ?thesis
    unfolding validateTar_manual[OF a b c] using d e f
    by (simp add: finished_fields report_fields)
qed

lemma get_upd_other: "k \<noteq> t \<Longrightarrow> get (m(t \<mapsto> v)) k = get m k"
  by (simp add: get_def)

lemma get_copyField: "k \<noteq> t \<Longrightarrow> get (copyField t s m) k = get m k"
  by (simp add: copyField_def get_upd_other)

lemma get_dutyStationFromCity:
  "k \<noteq> ''dutyStation'' \<Longrightarrow> get (dutyStationFromCity m) k = get m k"
  by (simp add: dutyStationFromCity_def get_upd_other)

lemma get_estimatedCostFromTotal:
  "k \<noteq> ''estimatedCost'' \<Longrightarrow> get (estimatedCostFromTotal m) k = get m k"
  by (simp add: estimatedCostFromTotal_def get_upd_other)

lemma get_dutyStationFromItinerary:
  "k \<noteq> ''dutyStation'' \<Longrightarrow> get (dutyStationFromItinerary m) k = get m k"
  by (simp add: dutyStationFromItinerary_def get_upd_other split: jsval.splits list.splits)

lemma get_cityStateFromDutyStation:
  "k \<noteq> ''city'' \<Longrightarrow> k \<noteq> ''state'' \<Longrightarrow> get (cityStateFromDutyStation m) k = get m k"
  by (simp add: cityStateFromDutyStation_def get_upd_other Let_def
        split: jsval.splits list.splits)

lemma merged_duration:
  "toNumberVal (get (mergeTarData ex data) ''duration'')
     = num_or (parseIntVal (get data ''duration'')) (Fin 1)"
proof -
  have "get (mergeTarData ex data) ''duration''
          = get ((ex ++ data)
                   (''duration'' \<mapsto> Number (num_or (parseIntVal (get data ''duration'')) (Fin 1)),
                    ''totalCost'' \<mapsto> Number (num_or (parseFloatVal (get data ''totalCost'')) (Fin 0))))
              ''duration''"
    by (simp add: mergeTarData_def get_cityStateFromDutyStation get_dutyStationFromItinerary
          get_estimatedCostFromTotal get_copyField get_dutyStationFromCity)
  then show ?thesis by (simp add: get_def)
qed

text \<open>The duration branch, in terms of the answer of the rate source.\<close>

lemma duration_branch_costs:
  assumes city: "city = toStr (or_val (get md ''city'') (Str ''Unknown''))"
      and state: "state = toStr (or_val (get md ''state'') (Str ''Unknown''))"
  shows "fst (durationCosts cfg api today md) =
           \<lparr>totalExpected = jmul (jadd (fst (dailyRates cfg (api city state)))
                                      (snd (dailyRates cfg (api city state))))
                                (toNumberVal (get md ''duration'')),
            breakdown = [\<lparr>item_location = city @ '', '' @ state,
                           item_date = or_val (get md ''tripDate'') (Str today),
                           item_mie = fst (dailyRates cfg (api city state)),
                           item_lodging = snd (dailyRates cfg (api city state)),
                           item_total = jadd (fst (dailyRates cfg (api city state)))
                                          (snd (dailyRates cfg (api city state)))\<rparr>]\<rparr>"
proof -
  have tr: "truthy (or_val (get md ''city'') (Str ''Unknown''))"
           "truthy (or_val (get md ''state'') (Str ''Unknown''))"
    by (simp_all add: or_val_def)
  have fetch: "fetchPerDiemByCityState api (or_val (get md ''city'') (Str ''Unknown''))
                 (or_val (get md ''state'') (Str ''Unknown'')) = api city state"
    using tr by (simp add: fetchPerDiemByCityState_def city state)
  show ?thesis
    by (simp add: durationCosts_def fetch Let_def city state split: prod.splits)
qed

text \<open>
  Claim C3. In the duration branch (no itinerary) of a completed validation the
  expected total is the M&IE rate plus the averaged monthly lodging rate, times the
  duration \<open>parseInt(data.duration) || 1\<close>; the breakdown is one item at
  \<open><city>, <state>\<close>; the two rates are the defaults when the lookup gives nothing. For
  Washington, DC, three days, meals "79" and every month "250", the expected total is
  987; a claimed cost of 1000 has the variance 13, and of the recommendations only the
  one for the buffer is given.
\<close>

theorem duration_mode_costs:
  assumes compl: "validateTarWithPerDiem cfg api extract today data = Completed r"
      and md: "md = mergeTarData (res_extractedData r) data"
      and noitin: "\<not> hasItinerary (get md ''itinerary'')"
      and city: "city = toStr (or_val (get md ''city'') (Str ''Unknown''))"
      and state: "state = toStr (or_val (get md ''state'') (Str ''Unknown''))"
      and duration: "duration = num_or (parseIntVal (get data ''duration'')) (Fin 1)"
  shows "(\<exists>mie lodging.
            (case api city state of
               None \<Rightarrow> mie = DEFAULT_MIE cfg \<and> lodging = DEFAULT_LODGING cfg
             | Some rate \<Rightarrow>
                 mie = num_or (parseFloatVal (get rate ''Meals'')) (DEFAULT_MIE cfg)
                 \<and> lodging = average (map (get rate) monthNames))
            \<and> totalExpected (rep_expectedCosts (validationReport r))
                = jmul (jadd mie lodging) duration
            \<and> expectedCost r = toFixed2 (jmul (jadd mie lodging) duration)
            \<and> res_breakdown r =
                [\<lparr>item_location = city @ '', '' @ state,
                  item_date = or_val (get md ''tripDate'') (Str today),
                  item_mie = mie, item_lodging = lodging, item_total = jadd mie lodging\<rparr>])
       \<and> (case validateTarWithPerDiem CONFIG (washingtonOnly (rateObject ''79'' ''250'')) extract
                 today (manualRequest (Number (Fin 3)) (Number (Fin 1000))) of
             Completed w \<Rightarrow>
               totalExpected (rep_expectedCosts (validationReport w)) = Fin 987
               \<and> variance (validationReport w) = Fin 13
               \<and> recommendations (validationReport w) = [bufferMessage]
               \<and> res_breakdown w =
                   [\<lparr>item_location = ''Washington, DC'', item_date = Str today,
                     item_mie = Fin 79, item_lodging = Fin 250, item_total = Fin 329\<rparr>]
           | _ \<Rightarrow> False)"
proof
  obtain costs where
    c: "expectedCostsOf cfg api today (mergeTarData (fst (extractStage extract data)) data)
          = Some costs"
    and r: "r = finishValidation cfg (fst (extractStage extract data))
                  (snd (extractStage extract data))
                  (mergeTarData (fst (extractStage extract data)) data) costs"
    using compl by (rule completed_parts)
  have ex: "res_extractedData r = fst (extractStage extract data)"
    using r by (simp add: finishValidation_def Let_def)
  have md': "mergeTarData (fst (extractStage extract data)) data = md" using md ex by simp
  have costs: "costs = durationCosts cfg api today md"
    using c noitin unfolding md' by (simp add: expectedCostsOf_def)
  have dur: "toNumberVal (get md ''duration'') = duration"
    unfolding md duration by (rule merged_duration)
  define mie where "mie = fst (dailyRates cfg (api city state))"
  define lodging where "lodging = snd (dailyRates cfg (api city state))"
  have rates: "case api city state of
                 None \<Rightarrow> mie = DEFAULT_MIE cfg \<and> lodging = DEFAULT_LODGING cfg
               | Some rate \<Rightarrow>
                   mie = num_or (parseFloatVal (get rate ''Meals'')) (DEFAULT_MIE cfg)
                   \<and> lodging = average (map (get rate) monthNames)"
    by (simp add: mie_def lodging_def dailyRates_def split: option.splits)
  have dc: "fst (durationCosts cfg api today md) =
              \<lparr>totalExpected = jmul (jadd mie lodging) duration,
               breakdown = [\<lparr>item_location = city @ '', '' @ state,
                              item_date = or_val (get md ''tripDate'') (Str today),
                              item_mie = mie, item_lodging = lodging,
                              item_total = jadd mie lodging\<rparr>]\<rparr>"
    unfolding duration_branch_costs[OF city state] dur mie_def lodging_def ..
  have "totalExpected (rep_expectedCosts (validationReport r)) = jmul (jadd mie lodging) duration
        \<and> expectedCost r = toFixed2 (jmul (jadd mie lodging) duration)
        \<and> res_breakdown r =
            [\<lparr>item_location = city @ '', '' @ state,
              item_date = or_val (get md ''tripDate'') (Str today),
              item_mie = mie, item_lodging = lodging, item_total = jadd mie lodging\<rparr>]"
    unfolding r md' costs by (simp add: finished_fields report_fields dc)
  then show "\<exists>mie lodging.
            (case api city state of
               None \<Rightarrow> mie = DEFAULT_MIE cfg \<and> lodging = DEFAULT_LODGING cfg
             | Some rate \<Rightarrow>
                 mie = num_or (parseFloatVal (get rate ''Meals'')) (DEFAULT_MIE cfg)
                 \<and> lodging = average (map (get rate) monthNames))
            \<and> totalExpected (rep_expectedCosts (validationReport r))
                = jmul (jadd mie lodging) duration
            \<and> expectedCost r = toFixed2 (jmul (jadd mie lodging) duration)
            \<and> res_breakdown r =
                [\<lparr>item_location = city @ '', '' @ state,
                  item_date = or_val (get md ''tripDate'') (Str today),
                  item_mie = mie, item_lodging = lodging, item_total = jadd mie lodging\<rparr>]"
    using rates by blast
next
  let ?data = "manualRequest (Number (Fin 3)) (Number (Fin 1000))"
  let ?api = "washingtonOnly (rateObject ''79'' ''250'')"
  let ?ex = "\<lparr>totalExpected = Fin 987,
              breakdown = [\<lparr>item_location = ''Washington, DC'', item_date = Str today,
                             item_mie = Fin 79, item_lodging = Fin 250, item_total = Fin 329\<rparr>]\<rparr>"
  have a: "\<not> truthy (get ?data ''pdfContent'')" by code_simp
  have b: "isValid (validateFormData CONFIG (mergeTarData Map.empty ?data))" by code_simp
  have c: "expectedCostsOf CONFIG ?api today (mergeTarData Map.empty ?data) = Some (?ex, [])"
    by code_simp
  have d: "toNumberVal (get (mergeTarData Map.empty ?data) ''totalCost'') = Fin 1000"
    by code_simp
  have e: "recommendations (generateValidationReport CONFIG (mergeTarData Map.empty ?data)
             ?ex (Fin 1000)) = [bufferMessage]"
    by code_simp
  show "case validateTarWithPerDiem CONFIG ?api extract today ?data of
          Completed w \<Rightarrow>
            totalExpected (rep_expectedCosts (validationReport w)) = Fin 987
            \<and> variance (validationReport w) = Fin 13
            \<and> recommendations (validationReport w) = [bufferMessage]
            \<and> res_breakdown w =
                [\<lparr>item_location = ''Washington, DC'', item_date = Str today,
                  item_mie = Fin 79, item_lodging = Fin 250, item_total = Fin 329\<rparr>]
        | _ \<Rightarrow> False"
    unfolding validateTar_manual[OF a b c] using d e
    by (simp add: finished_fields report_fields)
qed

text \<open>
  The rules of the two reports in full. The report of utils.gs recommends the buffer
  message exactly when it is not within the buffer, the deviation message (with its
  variance percent) exactly when it is not within the deviation, and the review message
  exactly when the breakdown is empty, in this order. The report of utils.js gives the
  buffer message exactly when the variance itself is above the buffer, the deviation
  message exactly when the magnitude of the variance percent, read back from its two
  decimals, is above the deviation, and the review message exactly when the breakdown is
  empty.
\<close>

lemma recommendation_rules:
  "recommendations (generateValidationReport_gs cfg d ex c) =
     (if isWithinBuffer (generateValidationReport_gs cfg d ex c) then [] else [bufferMessage])
     @ (if isWithinDeviation (generateValidationReport_gs cfg d ex c) then []
        else [deviationMessage (variancePercent (generateValidationReport_gs cfg d ex c))])
     @ (if breakdown ex = [] then [reviewMessage] else [])
   \<and> recommendations (generateValidationReport cfg d ex c) =
       (if jgt (variance (generateValidationReport cfg d ex c)) (COST_BUFFER cfg)
        then [bufferMessage] else [])
       @ (if jgt (jabs (toNumber (variancePercent (generateValidationReport cfg d ex c))))
               (MAX_DEVIATION_PERCENT cfg)
          then [deviationMessage (variancePercent (generateValidationReport cfg d ex c))]
          else [])
       @ (if breakdown ex = [] then [reviewMessage] else [])"
  by (simp add: generateValidationReport_gs_def generateValidationReport_def Let_def)

text \<open>
  The deviation rule of utils.js on the rounded percent: with an expected total of 1000
  and a claimed cost of 1150.04 the deviation is 15.004 percent, the report is not within
  the deviation, and the variance percent \<open>15.00\<close> is not above 15, so the deviation
  message is missing.
\<close>

lemma rounded_percent_without_recommendation:
  "\<not> isWithinDeviation (generateValidationReport CONFIG Map.empty
         \<lparr>totalExpected = Fin 1000, breakdown = [defaultDay]\<rparr> (Fin (115004 / 100)))
   \<and> variancePercent (generateValidationReport CONFIG Map.empty
         \<lparr>totalExpected = Fin 1000, breakdown = [defaultDay]\<rparr> (Fin (115004 / 100))) = ''15.00''
   \<and> recommendations (generateValidationReport CONFIG Map.empty
         \<lparr>totalExpected = Fin 1000, breakdown = [defaultDay]\<rparr> (Fin (115004 / 100)))
       = [bufferMessage]"
  by code_simp

text \<open>
  Claim C4, on utils.js. With an expected total of 1000 and a claimed cost of 900 the
  report of utils.js is not within the buffer and recommends nothing: it compares the
  variance, -100, with the buffer and not its magnitude. The report of utils.gs on the
  same input is not within the buffer either and recommends the buffer message.
\<close>

theorem underrun_without_recommendation:
  "\<not> isWithinBuffer (generateValidationReport CONFIG Map.empty
         \<lparr>totalExpected = Fin 1000, breakdown = [defaultDay]\<rparr> (Fin 900))
   \<and> recommendations (generateValidationReport CONFIG Map.empty
         \<lparr>totalExpected = Fin 1000, breakdown = [defaultDay]\<rparr> (Fin 900)) = []
   \<and> \<not> isWithinBuffer (generateValidationReport_gs CONFIG Map.empty
         \<lparr>totalExpected = Fin 1000, breakdown = [defaultDay]\<rparr> (Fin 900))
   \<and> recommendations (generateValidationReport_gs CONFIG Map.empty
         \<lparr>totalExpected = Fin 1000, breakdown = [defaultDay]\<rparr> (Fin 900)) = [bufferMessage]"
  by code_simp

theorem duration_mode_costs_witness:
  "\<exists>r. validateTarWithPerDiem CONFIG (washingtonOnly (rateObject ''79'' ''250'')) (\<lambda>_. None)
          ''2025-06-01'' (manualRequest (Number (Fin 3)) (Number (Fin 1000))) = Completed r
      \<and> \<not> hasItinerary (get (mergeTarData (res_extractedData r)
                (manualRequest (Number (Fin 3)) (Number (Fin 1000)))) ''itinerary'')
      \<and> toStr (or_val (get (mergeTarData (res_extractedData r)
                (manualRequest (Number (Fin 3)) (Number (Fin 1000)))) ''city'') (Str ''Unknown''))
          = ''Washington''
      \<and> toStr (or_val (get (mergeTarData (res_extractedData r)
                (manualRequest (Number (Fin 3)) (Number (Fin 1000)))) ''state'') (Str ''Unknown''))
          = ''DC''
      \<and> num_or (parseIntVal (get (manualRequest (Number (Fin 3)) (Number (Fin 1000)))
                ''duration'')) (Fin 1) = Fin 3
      \<and> expectedCost r = ''987.00''"
proof -
  let ?data = "manualRequest (Number (Fin 3)) (Number (Fin 1000))"
  let ?api = "washingtonOnly (rateObject ''79'' ''250'')"
  let ?md = "mergeTarData Map.empty ?data"
  let ?ex = "\<lparr>totalExpected = Fin 987,
              breakdown = [\<lparr>item_location = ''Washington, DC'', item_date = Str ''2025-06-01'',
                             item_mie = Fin 79, item_lodging = Fin 250, item_total = Fin 329\<rparr>]\<rparr>"
  let ?r = "finishValidation CONFIG Map.empty [] ?md (?ex, [])"
  have a: "\<not> truthy (get ?data ''pdfContent'')" by code_simp
  have b: "isValid (validateFormData CONFIG ?md)" by code_simp
  have c: "expectedCostsOf CONFIG ?api ''2025-06-01'' ?md = Some (?ex, [])" by code_simp
  have v: "validateTarWithPerDiem CONFIG ?api (\<lambda>_. None) ''2025-06-01'' ?data = Completed ?r"
    by (rule validateTar_manual[OF a b c])
  have md: "?md = mergeTarData (res_extractedData ?r) ?data" by (simp add: finished_fields)
  have noitin: "\<not> hasItinerary (get ?md ''itinerary'')" by code_simp
  have city: "''Washington'' = toStr (or_val (get ?md ''city'') (Str ''Unknown''))" by code_simp
  have state: "''DC'' = toStr (or_val (get ?md ''state'') (Str ''Unknown''))" by code_simp
  have dur: "Fin 3 = num_or (parseIntVal (get ?data ''duration'')) (Fin 1)" by code_simp
  have api: "?api ''Washington'' ''DC'' = Some (rateObject ''79'' ''250'')"
    by (simp add: washingtonOnly_def)
  have m: "num_or (parseFloatVal (get (rateObject ''79'' ''250'') ''Meals'')) (DEFAULT_MIE CONFIG)
             = Fin 79"
    by code_simp
  have l: "average (map (get (rateObject ''79'' ''250'')) monthNames) = Fin 250" by code_simp
  have t: "toFixed2 (jmul (jadd (Fin 79) (Fin 250)) (Fin 3)) = ''987.00''" by code_simp
  from duration_mode_costs[OF v md noitin city state dur]
  obtain mie lodging where
    "mie = num_or (parseFloatVal (get (rateObject ''79'' ''250'') ''Meals'')) (DEFAULT_MIE CONFIG)"
    "lodging = average (map (get (rateObject ''79'' ''250'')) monthNames)"
    "expectedCost ?r = toFixed2 (jmul (jadd mie lodging) (Fin 3))"
    unfolding api by auto
  then have "expectedCost ?r = ''987.00''" using m l t by simp
  then show ?thesis
    using v noitin city[symmetric] state[symmetric] dur[symmetric] md[symmetric] by auto
qed

section \<open>Properties of the form validation\<close>

lemma requiredError_iff: "requiredError data f = [] \<longleftrightarrow> requiredOk data f"
  by (auto simp: requiredError_def requiredOk_def present_def Let_def split: jsval.splits)

lemma errors1_iff:
  "concat (map (requiredError data) fs) = [] \<longleftrightarrow> list_all (requiredOk data) fs"
  by (induction fs) (simp_all add: requiredError_iff)

lemma positive_iff: "\<not> (isNaN x \<or> jle x (Fin 0)) \<longleftrightarrow> jgt x (Fin 0)"
  by (cases x) (auto simp: isNaN_def jgt_def)

lemma trim_Nil [simp]: "trim [] = []"
  by (simp add: trim_def)

lemma required_truthy:
  assumes "requiredOk data f" "get data f \<noteq> Number (Fin 0)" "get data f \<noteq> Number NaN"
  shows "truthy (get data f)"
  using assms
  by (cases "get data f") (auto simp: requiredOk_def present_def num_truthy_def)

lemma isValid_iff:
  "isValid (validateFormData cfg data) \<longleftrightarrow>
     list_all (requiredOk data) (requiredFields cfg)
     \<and> \<not> (truthy (get data ''vendorCode'')
            \<and> \<not> rx_match (vendorCodeFormat cfg) (trim (toStr (get data ''vendorCode''))))
     \<and> \<not> (truthy (get data ''contactNumber'')
            \<and> \<not> rx_match (phoneFormat cfg) (stripSeparators (toStr (get data ''contactNumber''))))
     \<and> \<not> (truthy (get data ''estimatedCost'')
            \<and> (isNaN (toNumberVal (get data ''estimatedCost''))
                 \<or> jle (toNumberVal (get data ''estimatedCost'')) (Fin 0)))"
  by (simp add: validateFormData_def Let_def errors1_iff del: concat_eq_Nil_conv)

lemma errors_empty_iff:
  "errors (validateFormData cfg data) = [] \<longleftrightarrow> isValid (validateFormData cfg data)"
  by (simp add: validateFormData_def Let_def del: concat_eq_Nil_conv)

text \<open>
  Claim C6, as stated: false. A complete record whose vendor code is the empty string
  is present in the sense of the claim and does not match \<open>^E\d{8,9}$\<close>, yet the
  validation passes with no error: the source tests \<open>if (data.vendorCode)\<close>.
\<close>

theorem blank_vendor_code_passes:
  "isValid (validateFormData CONFIG (formRecord (Str []) (Str ''(555) 123-4567'')))
   \<and> errors (validateFormData CONFIG (formRecord (Str []) (Str ''(555) 123-4567''))) = []
   \<and> \<not> specFormValid CONFIG (formRecord (Str []) (Str ''(555) 123-4567''))"
  by code_simp

text \<open>
  Claim C6, amended. Unless the estimated cost is the number 0 or NaN, the validation
  returns \<open>isValid\<close> with an empty error list exactly when every required field is neither
  undefined nor null and, if a string, not blank after trimming; the vendor code, unless
  it is falsy (absent, null, empty, 0 or NaN), matches \<open>^E\d{8,9}$\<close> after trimming; the
  contact number, unless it is falsy, matches \<open>^[+]?\d{7,15}$\<close> after stripping spaces,
  dashes and parentheses; and the estimated cost converts to a number above 0. A record
  without a contact number fails with the error naming \<open>contactNumber\<close>, and
  \<open>(555) 123-4567\<close> is stripped to \<open>5551234567\<close> and passes the phone check.
\<close>

theorem form_valid_iff:
  assumes "get data ''estimatedCost'' \<noteq> Number (Fin 0)"
      and "get data ''estimatedCost'' \<noteq> Number NaN"
  shows "((isValid (validateFormData CONFIG data) \<and> errors (validateFormData CONFIG data) = [])
          \<longleftrightarrow> (list_all (requiredOk data) (requiredFields CONFIG)
               \<and> (truthy (get data ''vendorCode'')
                    \<longrightarrow> rx_match (vendorCodeFormat CONFIG) (trim (toStr (get data ''vendorCode''))))
               \<and> (truthy (get data ''contactNumber'')
                    \<longrightarrow> rx_match (phoneFormat CONFIG)
                          (stripSeparators (toStr (get data ''contactNumber''))))
               \<and> jgt (toNumberVal (get data ''estimatedCost'')) (Fin 0)))
       \<and> (get data ''contactNumber'' = Undefined
            \<longrightarrow> \<not> isValid (validateFormData CONFIG data)
                \<and> ''Missing required field: contactNumber''
                     \<in> set (errors (validateFormData CONFIG data)))
       \<and> stripSeparators ''(555) 123-4567'' = ''5551234567''
       \<and> rx_match (phoneFormat CONFIG) (stripSeparators ''(555) 123-4567'')"
proof (intro conjI)
  let ?ec = "get data ''estimatedCost''"
  have req: "''estimatedCost'' \<in> set (requiredFields CONFIG)" by (simp add: CONFIG_def)
  have tr: "truthy ?ec" if "list_all (requiredOk data) (requiredFields CONFIG)"
    using that req assms required_truthy[of data "''estimatedCost''"]
    by (auto simp: list_all_iff)
  show "(isValid (validateFormData CONFIG data) \<and> errors (validateFormData CONFIG data) = [])
          \<longleftrightarrow> (list_all (requiredOk data) (requiredFields CONFIG)
               \<and> (truthy (get data ''vendorCode'')
                    \<longrightarrow> rx_match (vendorCodeFormat CONFIG) (trim (toStr (get data ''vendorCode''))))
               \<and> (truthy (get data ''contactNumber'')
                    \<longrightarrow> rx_match (phoneFormat CONFIG)
                          (stripSeparators (toStr (get data ''contactNumber''))))
               \<and> jgt (toNumberVal (get data ''estimatedCost'')) (Fin 0))"
    unfolding errors_empty_iff isValid_iff
    using tr positive_iff[of "toNumberVal ?ec"] by blast
next
  show "get data ''contactNumber'' = Undefined
            \<longrightarrow> \<not> isValid (validateFormData CONFIG data)
                \<and> ''Missing required field: contactNumber''
                     \<in> set (errors (validateFormData CONFIG data))"
    by (auto simp: validateFormData_def Let_def CONFIG_def requiredError_def)
next
  show "stripSeparators ''(555) 123-4567'' = ''5551234567''" by code_simp
next
  show "rx_match (phoneFormat CONFIG) (stripSeparators ''(555) 123-4567'')" by code_simp
qed

theorem form_valid_iff_witness:
  "get (formRecord (Str ''E12345678'') (Str ''(555) 123-4567'')) ''estimatedCost'' \<noteq> Number (Fin 0)
   \<and> get (formRecord (Str ''E12345678'') (Str ''(555) 123-4567'')) ''estimatedCost'' \<noteq> Number NaN
   \<and> isValid (validateFormData CONFIG (formRecord (Str ''E12345678'') (Str ''(555) 123-4567'')))
   \<and> errors (validateFormData CONFIG (formRecord (Str ''E12345678'') (Str ''(555) 123-4567''))) = []"
proof -
  let ?d = "formRecord (Str ''E12345678'') (Str ''(555) 123-4567'')"
  have a: "get ?d ''estimatedCost'' \<noteq> Number (Fin 0)" by code_simp
  have b: "get ?d ''estimatedCost'' \<noteq> Number NaN" by code_simp
  have c: "list_all (requiredOk ?d) (requiredFields CONFIG)" by code_simp
  have d: "rx_match (vendorCodeFormat CONFIG) (trim (toStr (get ?d ''vendorCode'')))"
    by code_simp
  have e: "rx_match (phoneFormat CONFIG) (stripSeparators (toStr (get ?d ''contactNumber'')))"
    by code_simp
  have f: "jgt (toNumberVal (get ?d ''estimatedCost'')) (Fin 0)" by code_simp
  show ?thesis using form_valid_iff[OF a b] a b c d e f by blast
qed

section \<open>Properties of the text cleaning\<close>

lemma collapseWhitespace_spaces:
  "c \<in> set (collapseWhitespace s) \<Longrightarrow> is_space c \<Longrightarrow> c = CHR '' ''"
  by (induction s rule: collapseWhitespace.induct) (auto split: if_splits)

lemma collapseWhitespace_no_LF: "LF \<notin> set (collapseWhitespace s)"
  using collapseWhitespace_spaces[of LF s] by (auto simp: LF_def is_space_def)

lemma collapseWhitespace_no_CR: "CR \<notin> set (collapseWhitespace s)"
  using collapseWhitespace_spaces[of CR s] by (auto simp: CR_def is_space_def)

lemma collapseBlankLines_id: "LF \<notin> set s \<Longrightarrow> collapseBlankLines s = s"
  by (induction s) auto

lemma set_tightenDollar: "set (tightenDollar s) \<subseteq> set s"
proof (induction s rule: tightenDollar.induct)
  case 1
  then show ?case by simp
next
  case (2 c cs)
  have "set (dropWhile is_space cs) \<subseteq> set cs" by (auto dest: set_dropWhileD)
  with 2 show ?case by (auto split: if_splits)
qed

lemma set_fixBeforeDigit: "set (fixBeforeDigit p r s) \<subseteq> insert r (set s)"
  by (induction p r s rule: fixBeforeDigit.induct) auto

lemma in_set_trim: "c \<in> set (trim s) \<Longrightarrow> c \<in> set s"
proof -
  assume "c \<in> set (trim s)"
  then have "c \<in> set (dropWhile is_space (rev (dropWhile is_space s)))"
    by (simp add: trim_def)
  then have "c \<in> set (rev (dropWhile is_space s))" by (rule set_dropWhileD)
  then have "c \<in> set (dropWhile is_space s)" by simp
  then show "c \<in> set s" by (rule set_dropWhileD)
qed

lemma in_fixBeforeDigit: "c \<in> set (fixBeforeDigit p r s) \<Longrightarrow> c = r \<or> c \<in> set s"
  using set_fixBeforeDigit[of p r s] by auto

lemma cleanExtractedText_chars:
  assumes "c \<in> set (cleanExtractedText text)"
  shows "c \<in> set (collapseWhitespace text) \<or> c = CHR ''0'' \<or> c = CHR ''1'' \<or> c = CHR ''5''"
proof -
  let ?a = "collapseBlankLines (collapseWhitespace text)"
  let ?o = "fixBeforeDigit (\<lambda>c. c = CHR ''O'' \<or> c = CHR ''o'') (CHR ''0'')
              (tightenDollar (filter allowedChar ?a))"
  let ?i = "fixBeforeDigit (\<lambda>c. c = CHR ''I'' \<or> c = CHR ''l'') (CHR ''1'') ?o"
  let ?s = "fixBeforeDigit (\<lambda>c. c = CHR ''S'' \<or> c = CHR ''s'') (CHR ''5'') ?i"
  have a: "?a = collapseWhitespace text"
    by (rule collapseBlankLines_id) (rule collapseWhitespace_no_LF)
  have "text \<noteq> []" using assms by (auto simp: cleanExtractedText_def)
  then have "cleanExtractedText text = trim ?s" by (simp add: cleanExtractedText_def)
  then have "c \<in> set ?s" using assms by (simp add: in_set_trim)
  then have "c = CHR ''5'' \<or> c \<in> set ?i" by (rule in_fixBeforeDigit)
  moreover have "c = CHR ''1'' \<or> c \<in> set ?o" if "c \<in> set ?i"
    using that by (rule in_fixBeforeDigit)
  moreover have "c = CHR ''0'' \<or> c \<in> set (tightenDollar (filter allowedChar ?a))"
    if "c \<in> set ?o"
    using that by (rule in_fixBeforeDigit)
  moreover have "c \<in> set (collapseWhitespace text)"
    if "c \<in> set (tightenDollar (filter allowedChar ?a))"
    using that set_tightenDollar[of "filter allowedChar ?a"] a by auto
  ultimately show ?thesis by blast
qed

text \<open>
  Claim C10. The cleaned text holds neither a line feed nor a carriage return: the
  first replacement leaves the space as the only white space, so the collapse of blank
  lines changes nothing, and the capture \<open>[^\n\r]+\<close> of a field pattern, wherever it
  starts in the cleaned text, runs to the end of the text.
\<close>

theorem cleaned_text_has_no_line_break:
  "LF \<notin> set (cleanExtractedText text) \<and> CR \<notin> set (cleanExtractedText text)
   \<and> collapseBlankLines (collapseWhitespace text) = collapseWhitespace text
   \<and> lineCapture (drop n (cleanExtractedText text)) = drop n (cleanExtractedText text)"
proof -
  have lf: "LF \<notin> set (cleanExtractedText text)"
    using cleanExtractedText_chars[of LF "text"] collapseWhitespace_no_LF[of "text"]
    by (auto simp: LF_def)
  have cr: "CR \<notin> set (cleanExtractedText text)"
    using cleanExtractedText_chars[of CR "text"] collapseWhitespace_no_CR[of "text"]
    by (auto simp: CR_def)
  have "\<And>c. c \<in> set (drop n (cleanExtractedText text)) \<Longrightarrow> c \<noteq> LF \<and> c \<noteq> CR"
    using lf cr by (metis in_set_dropD)
  then have "lineCapture (drop n (cleanExtractedText text)) = drop n (cleanExtractedText text)"
    unfolding lineCapture_def by (simp add: takeWhile_eq_all_conv)
  moreover have "collapseBlankLines (collapseWhitespace text) = collapseWhitespace text"
    by (rule collapseBlankLines_id) (rule collapseWhitespace_no_LF)
  ultimately show ?thesis using lf cr by simp
qed

section \<open>Properties of the aggregation\<close>

text \<open>
  Claim C9, on the total cost. For a group of two rows, the first with the explicit
  total "0" and the item value "50", the second with the explicit total "500" and the
  item value "70", the aggregation takes the explicit total of the first row only,
  finds it zero and writes the sum 120 of the item values; the first explicit total
  that is not zero is 500.
\<close>

theorem total_from_first_row_only:
  "aggregateGroup (\<lambda>_. None) (\<lambda>_. []) (costRow ''0'' ''50'') [costRow ''500'' ''70'']
       ''Total Actual Cost'' = Some ''120''
   \<and> specTotalActual [costRow ''0'' ''50'', costRow ''500'' ''70''] = Fin 500"
  by code_simp

section \<open>Properties of the date normalisation\<close>

subsection \<open>The language of a pattern\<close>










subsection \<open>Dates of the two rewritten forms\<close>

lemma slash_not_digit [simp]: "\<not> is_digit (CHR ''/'')"
  by (simp add: is_digit_def)











lemma normalizeDate_nonempty:
  assumes "s \<noteq> []"
  shows "\<exists>x. normalizeDate legacy s = Some x \<and> x \<noteq> []"
proof -
  have r: "rewriteDate sep s = Some n \<Longrightarrow> n \<noteq> []" for sep n
    by (auto simp: rewriteDate_def split: list.splits)
  show ?thesis
    using assms r by (auto simp: normalizeDate_def split: option.splits)
qed




section \<open>Properties of the itinerary pairing\<close>

lemma upt_max_split: "[0..<max n m] = [0..<n] @ [n..<max n m]"
  by (metis le_add_diff_inverse max.cobounded1 upt_add_eq_append zero_le)

lemma map_nth_drop: "map (\<lambda>i. f (xs ! i)) [n..<max n (length xs)] = map f (drop n xs)"
proof (cases "n \<le> length xs")
  case True
  then show ?thesis by (intro nth_equalityI) (simp_all add: max_def)
next
  case False
  then show ?thesis by (simp add: max_def)
qed

lemma enhancedItem_dated:
  assumes "i < length dates"
  shows "enhancedItem legacy dates (map (\<lambda>(c, s). (trim c, trim s)) captures) i
           = \<lparr> stop_date = normalizeDate legacy (dates ! i),
               stop_city = (if captures = [] then None
                            else Some (trim (fst (captures ! min i (length captures - 1))))),
               stop_state = (if captures = [] then None
                             else Some (trim (snd (captures ! min i (length captures - 1))))) \<rparr>"
proof (cases "i < length captures")
  case True
  then have "min i (length captures - 1) = i" "captures \<noteq> []" by auto
  then show ?thesis using True assms by (simp add: enhancedItem_def case_prod_beta)
next
  case False
  then have "captures \<noteq> [] \<Longrightarrow> min i (length captures - 1) = length captures - 1" by auto
  then show ?thesis
    using False assms by (simp add: enhancedItem_def case_prod_beta last_conv_nth last_map)
qed

lemma enhancedItem_undated:
  assumes "length dates \<le> i" "i < length captures"
  shows "enhancedItem legacy dates (map (\<lambda>(c, s). (trim c, trim s)) captures) i
           = (\<lambda>(c, s). \<lparr> stop_date = None, stop_city = Some (trim c),
                           stop_state = Some (trim s) \<rparr>) (captures ! i)"
  using assms by (simp add: enhancedItem_def case_prod_beta)

lemma combineBasic_zip:
  "combineBasic dates captures
     = map (\<lambda>(d, c, s). \<lparr> stop_date = Some d, stop_city = Some (trim c),
                            stop_state = Some (trim s) \<rparr>) (zip dates captures)"
  unfolding combineBasic_def by (rule nth_equalityI) (simp_all add: case_prod_beta)

lemma combineEnhanced_eq:
  assumes "\<forall>d \<in> set dates. d \<noteq> []"
  shows "combineEnhanced legacy dates captures
           = map (\<lambda>i. \<lparr> stop_date = normalizeDate legacy (dates ! i),
                         stop_city = (if captures = [] then None
                            else Some (trim (fst (captures ! min i (length captures - 1))))),
                         stop_state = (if captures = [] then None
                            else Some (trim (snd (captures ! min i (length captures - 1))))) \<rparr>)
               [0..<length dates]
             @ filter (\<lambda>item. stop_city item \<noteq> Some [])
                 (map (\<lambda>(c, s). \<lparr> stop_date = None, stop_city = Some (trim c),
                                     stop_state = Some (trim s) \<rparr>)
                    (drop (length dates) captures))"
proof -
  let ?locs = "map (\<lambda>(c, s). (trim c, trim s)) captures"
  let ?keep = "\<lambda>item. truthy (optVal (stop_city item)) \<or> truthy (optVal (stop_date item))"
  let ?dated = "\<lambda>i. \<lparr> stop_date = normalizeDate legacy (dates ! i),
                         stop_city = (if captures = [] then None
                            else Some (trim (fst (captures ! min i (length captures - 1))))),
                         stop_state = (if captures = [] then None
                            else Some (trim (snd (captures ! min i (length captures - 1))))) \<rparr>"
  let ?undated = "\<lambda>(c, s). \<lparr> stop_date = None, stop_city = Some (trim c),
                                stop_state = Some (trim s) \<rparr>"
  have front: "map (enhancedItem legacy dates ?locs) [0..<length dates]
                 = map ?dated [0..<length dates]"
    by (rule map_cong[OF refl]) (simp add: enhancedItem_dated)
  have keep_front: "filter ?keep (map ?dated [0..<length dates]) = map ?dated [0..<length dates]"
  proof -
    have "?keep (?dated i)" if "i < length dates" for i
    proof -
      have "dates ! i \<noteq> []" using assms that by simp
      then obtain x where "normalizeDate legacy (dates ! i) = Some x" "x \<noteq> []"
        using normalizeDate_nonempty by blast
      then show ?thesis by (simp add: optVal_def)
    qed
    then show ?thesis by (simp add: filter_id_conv)
  qed
  have rear: "map (enhancedItem legacy dates ?locs) [length dates..<max (length dates) (length captures)]
                = map ?undated (drop (length dates) captures)"
  proof -
    have "map (enhancedItem legacy dates ?locs) [length dates..<max (length dates) (length captures)]
            = map (\<lambda>i. ?undated (captures ! i)) [length dates..<max (length dates) (length captures)]"
    proof (rule map_cong[OF refl])
      fix i
      assume "i \<in> set [length dates..<max (length dates) (length captures)]"
      then have "length dates \<le> i" "i < length captures" by auto
      then show "enhancedItem legacy dates ?locs i = ?undated (captures ! i)"
        by (rule enhancedItem_undated)
    qed
    then show ?thesis by (simp only: map_nth_drop)
  qed
  have keep_rear: "filter ?keep (map ?undated xs)
                     = filter (\<lambda>item. stop_city item \<noteq> Some []) (map ?undated xs)" for xs
    by (rule filter_cong[OF refl]) (auto simp: optVal_def)
  have "combineEnhanced legacy dates captures
          = filter ?keep (map (enhancedItem legacy dates ?locs) [0..<length dates])
            @ filter ?keep (map (enhancedItem legacy dates ?locs)
                [length dates..<max (length dates) (length captures)])"
    unfolding combineEnhanced_def Let_def length_map
    by (subst upt_max_split) (simp only: map_append filter_append)
  then show ?thesis by (simp only: front keep_front rear keep_rear)
qed

text \<open>
  Claim C8, as it fails on \<open>extractItineraryData\<close> of utils.js. With three dates and one
  location the loop runs to the smaller of the two counts and gives one stop, not three
  stops sharing the location.
\<close>

theorem basic_pairing_truncates:
  "combineBasic [''05/01/2025'', ''05/02/2025'', ''05/03/2025''] [(''Denver'', ''CO'')]
     = [\<lparr> stop_date = Some ''05/01/2025'', stop_city = Some ''Denver'',
            stop_state = Some ''CO'' \<rparr>]"
  by code_simp

text \<open>
  Claim C8, amended. \<open>extractItineraryDataEnhanced\<close> gives one stop for every date, in
  order, with the location of the same position, or the last location when the locations
  have run out, or no location when there is none; then one stop without a date for
  every further location whose city is not empty. So three dates and one location give
  three stops sharing the location, and one date and three locations give one dated stop
  followed by two stops without a date. \<open>extractItineraryData\<close> pairs the dates and the
  locations position by position up to the shorter of the two lists and drops the rest.
\<close>

theorem itinerary_pairing:
  assumes "\<forall>d \<in> set dates. d \<noteq> []"
  shows "combineEnhanced legacy dates captures
           = map (\<lambda>i. \<lparr> stop_date = normalizeDate legacy (dates ! i),
                         stop_city = (if captures = [] then None
                            else Some (trim (fst (captures ! min i (length captures - 1))))),
                         stop_state = (if captures = [] then None
                            else Some (trim (snd (captures ! min i (length captures - 1))))) \<rparr>)
               [0..<length dates]
             @ filter (\<lambda>item. stop_city item \<noteq> Some [])
                 (map (\<lambda>(c, s). \<lparr> stop_date = None, stop_city = Some (trim c),
                                     stop_state = Some (trim s) \<rparr>)
                    (drop (length dates) captures))
         \<and> combineBasic dates captures
             = map (\<lambda>(d, c, s). \<lparr> stop_date = Some d, stop_city = Some (trim c),
                                    stop_state = Some (trim s) \<rparr>) (zip dates captures)
         \<and> combineEnhanced legacy [''05/01/2025'', ''05/02/2025'', ''05/03/2025'']
               [(''Denver'', ''CO'')]
             = [\<lparr> stop_date = Some ''2025-05-01'', stop_city = Some ''Denver'',
                    stop_state = Some ''CO'' \<rparr>,
                \<lparr> stop_date = Some ''2025-05-02'', stop_city = Some ''Denver'',
                    stop_state = Some ''CO'' \<rparr>,
                \<lparr> stop_date = Some ''2025-05-03'', stop_city = Some ''Denver'',
                    stop_state = Some ''CO'' \<rparr>]
         \<and> combineEnhanced legacy [''05/01/2025'']
               [(''Denver'', ''CO''), (''Austin'', ''TX''), (''Boston'', ''MA'')]
             = [\<lparr> stop_date = Some ''2025-05-01'', stop_city = Some ''Denver'',
                    stop_state = Some ''CO'' \<rparr>,
                \<lparr> stop_date = None, stop_city = Some ''Austin'', stop_state = Some ''TX'' \<rparr>,
                \<lparr> stop_date = None, stop_city = Some ''Boston'', stop_state = Some ''MA'' \<rparr>]"
proof -
  have e1: "combineEnhanced legacy [''05/01/2025'', ''05/02/2025'', ''05/03/2025'']
               [(''Denver'', ''CO'')]
             = [\<lparr> stop_date = Some ''2025-05-01'', stop_city = Some ''Denver'',
                    stop_state = Some ''CO'' \<rparr>,
                \<lparr> stop_date = Some ''2025-05-02'', stop_city = Some ''Denver'',
                    stop_state = Some ''CO'' \<rparr>,
                \<lparr> stop_date = Some ''2025-05-03'', stop_city = Some ''Denver'',
                    stop_state = Some ''CO'' \<rparr>]"
    by code_simp
  have e2: "combineEnhanced legacy [''05/01/2025'']
               [(''Denver'', ''CO''), (''Austin'', ''TX''), (''Boston'', ''MA'')]
             = [\<lparr> stop_date = Some ''2025-05-01'', stop_city = Some ''Denver'',
                    stop_state = Some ''CO'' \<rparr>,
                \<lparr> stop_date = None, stop_city = Some ''Austin'', stop_state = Some ''TX'' \<rparr>,
                \<lparr> stop_date = None, stop_city = Some ''Boston'', stop_state = Some ''MA'' \<rparr>]"
    by code_simp
  show ?thesis
    using combineEnhanced_eq[OF assms] combineBasic_zip e1 e2 by blast
qed

theorem itinerary_pairing_witness:
  "''5/1/2025'' \<noteq> [] \<and> ''5-2-2025'' \<noteq> []
   \<and> combineEnhanced (\<lambda>_. False) [''5/1/2025'', ''5-2-2025''] [('' Denver'', ''CO '')]
       = [\<lparr> stop_date = Some ''2025-05-01'', stop_city = Some ''Denver'',
              stop_state = Some ''CO'' \<rparr>,
          \<lparr> stop_date = Some ''2025-05-02'', stop_city = Some ''Denver'',
              stop_state = Some ''CO'' \<rparr>]"
proof -
  let ?dates = "[''5/1/2025'', ''5-2-2025'']"
  let ?caps = "[('' Denver'', ''CO '')]"
  have h: "\<forall>d \<in> set ?dates. d \<noteq> []" by simp
  have "combineEnhanced (\<lambda>_. False) ?dates ?caps
          = map (\<lambda>i. \<lparr> stop_date = normalizeDate (\<lambda>_. False) (?dates ! i),
                        stop_city = (if ?caps = [] then None
                           else Some (trim (fst (?caps ! min i (length ?caps - 1))))),
                        stop_state = (if ?caps = [] then None
                           else Some (trim (snd (?caps ! min i (length ?caps - 1))))) \<rparr>)
              [0..<length ?dates]
            @ filter (\<lambda>item. stop_city item \<noteq> Some [])
                (map (\<lambda>(c, s). \<lparr> stop_date = None, stop_city = Some (trim c),
                                    stop_state = Some (trim s) \<rparr>)
                   (drop (length ?dates) ?caps))"
    by (rule itinerary_pairing[OF h, of "\<lambda>_. False" ?caps, THEN conjunct1])
  also have "\<dots> = [\<lparr> stop_date = Some ''2025-05-01'', stop_city = Some ''Denver'',
                       stop_state = Some ''CO'' \<rparr>,
                   \<lparr> stop_date = Some ''2025-05-02'', stop_city = Some ''Denver'',
                       stop_state = Some ''CO'' \<rparr>]"
    by code_simp
  finally show ?thesis by simp
qed

end
